theory Spec2Isabelle
  imports Complex_Main "HOL-Library.Word" "HOL-Library.Signed_Division"
begin

section \<open>Data model of the neighbour-search grid (class \<open>tiny_mps::Grid\<close>)\<close>

text \<open>
  A C++ \<open>int\<close> is a 32-bit two's complement word: \<open>+\<close> and \<open>*\<close> wrap around, \<open>sint\<close>
  reads the signed value. A finite \<open>double\<close> is modelled by the real number it
  denotes. Multiplication by \<open>0.0\<close> or \<open>1.0\<close>, \<open>max\<close> and \<open>min\<close> are exact on
  finite doubles; subtraction and division round to the nearest double and may leave
  the finite doubles, which the section on cell indices models.
  The coordinates matrix has three rows and one column per particle; it is kept as the
  list of its columns.
\<close>

type_synonym i32 = "32 word"
type_synonym vec3 = "real \<times> real \<times> real"

datatype error =
    DivideError          \<comment> \<open>integer division by zero, or \<open>INT_MIN / -1\<close>\<close>
  | OutOfRange           \<comment> \<open>\<open>std::out_of_range\<close> thrown by \<open>unordered_map::at\<close>\<close>
  | SizeMismatch         \<comment> \<open>Eigen: broadcast of a vector whose size is not the number of columns\<close>
  | EmptyMatrix          \<comment> \<open>Eigen: \<open>maxCoeff\<close> or \<open>minCoeff\<close> of an empty matrix\<close>
  | IndexOutOfBounds     \<comment> \<open>a particle index outside \<open>[0, size)\<close>\<close>
  | PreconditionViolated \<comment> \<open>a constructor argument the specification excludes\<close>

record Grid =
  dimension :: i32
  size_grid :: i32
  grid_width :: real
  coordinates :: "vec3 list"
  valid_coordinates :: "bool list"
  higher_bounds :: vec3
  lower_bounds :: vec3
  grid_number :: "i32 \<times> i32 \<times> i32"
  grid_hash :: "(i32 \<times> i32) list"
  begin_hash :: "(i32 \<times> (i32 \<times> i32)) list"

definition bind_err :: "error + 'a \<Rightarrow> ('a \<Rightarrow> error + 'b) \<Rightarrow> error + 'b" where
  "bind_err r f = (case r of Inl e \<Rightarrow> Inl e | Inr a \<Rightarrow> f a)"

section \<open>Bucket lookup\<close>

text \<open>
  \<open>begin_hash\<close> is a \<open>std::unordered_map<int, std::pair<int, int>>\<close>, kept as an
  association list: \<open>empty()\<close> is the test for the empty list, \<open>find(hash) == end()\<close> is
  a failed lookup, and \<open>at(hash)\<close> throws where the key is missing.
\<close>

definition umap_empty :: "('k \<times> 'v) list \<Rightarrow> bool" where
  "umap_empty m = (m = [])"

definition umap_find :: "('k \<times> 'v) list \<Rightarrow> 'k \<Rightarrow> 'v option" where
  "umap_find m k = map_of m k"

definition umap_at :: "('k \<times> 'v) list \<Rightarrow> 'k \<Rightarrow> error + 'v" where
  "umap_at m k = (case map_of m k of None \<Rightarrow> Inl OutOfRange | Some v \<Rightarrow> Inr v)"

definition getGridHashBegin :: "Grid \<Rightarrow> i32 \<Rightarrow> error + (i32 \<times> i32)" where
  "getGridHashBegin g hash =
     (if umap_empty (begin_hash g) then Inr (- 1, - 1)
      else if umap_find (begin_hash g) hash = None then Inr (- 1, - 1)
      else bind_err (umap_at (begin_hash g) hash) (\<lambda>p1.
           bind_err (umap_at (begin_hash g) hash) (\<lambda>p2.
           Inr (fst p1, snd p2))))"

section \<open>Bounds\<close>

text \<open>
  \<open>coordinates.array().rowwise() * valid_coordinates.cast<double>().transpose().array()\<close>
  multiplies column \<open>j\<close> of the matrix by \<open>1.0\<close> where the mask holds at \<open>j\<close> and by
  \<open>0.0\<close> where it does not; Eigen requires one mask entry per column. The products are
  exact on finite doubles. \<open>rowwise().maxCoeff()\<close> then reduces every row to its largest
  entry, and fails on a matrix without columns.
\<close>

definition maskColumn :: "vec3 \<Rightarrow> bool \<Rightarrow> vec3" where
  "maskColumn c b = (case c of (x, y, z) \<Rightarrow> (x * of_bool b, y * of_bool b, z * of_bool b))"

definition maskedCoordinates :: "Grid \<Rightarrow> error + vec3 list" where
  "maskedCoordinates g =
     (if length (coordinates g) \<noteq> length (valid_coordinates g) then Inl SizeMismatch
      else Inr (map2 maskColumn (coordinates g) (valid_coordinates g)))"

definition max3 :: "vec3 \<Rightarrow> vec3 \<Rightarrow> vec3" where
  "max3 c a = (case (c, a) of ((x, y, z), (p, q, r)) \<Rightarrow> (max p x, max q y, max r z))"

definition min3 :: "vec3 \<Rightarrow> vec3 \<Rightarrow> vec3" where
  "min3 c a = (case (c, a) of ((x, y, z), (p, q, r)) \<Rightarrow> (min p x, min q y, min r z))"

fun rowwise_maxCoeff :: "vec3 list \<Rightarrow> error + vec3" where
  "rowwise_maxCoeff [] = Inl EmptyMatrix"
| "rowwise_maxCoeff (c # cs) = Inr (fold max3 cs c)"

fun rowwise_minCoeff :: "vec3 list \<Rightarrow> error + vec3" where
  "rowwise_minCoeff [] = Inl EmptyMatrix"
| "rowwise_minCoeff (c # cs) = Inr (fold min3 cs c)"

definition getMaxCoordinates :: "Grid \<Rightarrow> error + vec3" where
  "getMaxCoordinates g = bind_err (maskedCoordinates g) rowwise_maxCoeff"

definition getMinCoordinates :: "Grid \<Rightarrow> error + vec3" where
  "getMinCoordinates g = bind_err (maskedCoordinates g) rowwise_minCoeff"

section \<open>Cell indices and hashes\<close>

definition getGridNumberX :: "Grid \<Rightarrow> i32" where
  "getGridNumberX g = fst (grid_number g)"

definition getGridNumberY :: "Grid \<Rightarrow> i32" where
  "getGridNumberY g = fst (snd (grid_number g))"

definition getGridNumberZ :: "Grid \<Rightarrow> i32" where
  "getGridNumberZ g = (if dimension g = 2 then 0 else snd (snd (grid_number g)))"

text \<open>
  \<open>grid_number[0]\<close>, \<open>grid_number[1]\<close> and \<open>grid_number[2]\<close>, as the hash functions read
  them.
\<close>

definition grid_number0 :: "Grid \<Rightarrow> i32" where
  "grid_number0 g = fst (grid_number g)"

definition grid_number1 :: "Grid \<Rightarrow> i32" where
  "grid_number1 g = fst (snd (grid_number g))"

definition grid_number2 :: "Grid \<Rightarrow> i32" where
  "grid_number2 g = snd (snd (grid_number g))"

text \<open>
  C++ integer division truncates towards zero. It is undefined for a zero divisor and for
  \<open>INT_MIN / -1\<close>, where the processor traps; both are errors of the model.
\<close>

definition int_div :: "i32 \<Rightarrow> i32 \<Rightarrow> error + i32" where
  "int_div a b =
     (if b = 0 \<or> (sint a = - (2 ^ 31) \<and> sint b = - 1) then Inl DivideError
      else Inr (word_of_int (sint a sdiv sint b)))"

definition int_mod :: "i32 \<Rightarrow> i32 \<Rightarrow> error + i32" where
  "int_mod a b =
     (if b = 0 \<or> (sint a = - (2 ^ 31) \<and> sint b = - 1) then Inl DivideError
      else Inr (word_of_int (sint a smod sint b)))"

definition toHash2 :: "Grid \<Rightarrow> i32 \<Rightarrow> i32 \<Rightarrow> i32" where
  "toHash2 g index_x index_y = index_x + index_y * grid_number0 g"

definition toHash :: "Grid \<Rightarrow> i32 \<Rightarrow> i32 \<Rightarrow> i32 \<Rightarrow> i32" where
  "toHash g index_x index_y index_z =
     (if dimension g = 2 then toHash2 g index_x index_y
      else index_x + index_y * grid_number0 g + index_z * grid_number1 g * grid_number0 g)"

subsection \<open>Double arithmetic\<close>

text \<open>
  A finite IEEE 754 binary64 number is \<open>m * 2 ^ e\<close> with \<open>\<bar>m\<bar> < 2 ^ 53\<close> and
  \<open>- 1074 \<le> e \<le> 971\<close>. \<open>bit_length n\<close> is the number of binary digits of \<open>n\<close>, and
  \<open>binade x\<close> is the exponent of the largest power of two that is at most \<open>\<bar>x\<bar>\<close>.
\<close>

function bit_length :: "int \<Rightarrow> nat" where
  "bit_length n = (if n \<le> 0 then 0 else Suc (bit_length (n div 2)))"
  by pat_completeness auto
termination
  by (relation "measure nat") auto

declare bit_length.simps [simp del]

definition pow2 :: "int \<Rightarrow> real" where
  "pow2 e = (if 0 \<le> e then 2 ^ nat e else 1 / 2 ^ nat (- e))"

definition binade :: "real \<Rightarrow> int" where
  "binade x =
     (if 1 \<le> \<bar>x\<bar> then int (bit_length \<lfloor>\<bar>x\<bar>\<rfloor>) - 1
      else - int (bit_length (\<lceil>1 / \<bar>x\<bar>\<rceil> - 1)))"

text \<open>Rounding to the nearest integer, a tie to the even one.\<close>

definition round_even :: "real \<Rightarrow> int" where
  "round_even y =
     (if y - of_int \<lfloor>y\<rfloor> < 1 / 2 then \<lfloor>y\<rfloor>
      else if 1 / 2 < y - of_int \<lfloor>y\<rfloor> then \<lfloor>y\<rfloor> + 1
      else if even \<lfloor>y\<rfloor> then \<lfloor>y\<rfloor> else \<lfloor>y\<rfloor> + 1)"

text \<open>
  The double nearest to a real, ties to even, as the IEEE default rounding gives it:
  53 significant bits, gradual underflow below \<open>2 ^ (- 1022)\<close>, and no finite result
  (\<open>None\<close>: an infinity) from \<open>2 ^ 1024\<close> on. \<open>None\<close> stands for every double that is
  not finite, NaN included.
\<close>

definition double_round :: "real \<Rightarrow> real option" where
  "double_round x =
     (if x = 0 then Some 0
      else
        let e = max (binade x - 52) (- 1074);
            y = sgn x * of_int (round_even (\<bar>x\<bar> / pow2 e)) * pow2 e
        in if 2 ^ 1024 \<le> \<bar>y\<bar> then None else Some y)"

text \<open>
  \<open>a - b\<close> and \<open>a / b\<close> on doubles. The operands are doubles: \<open>double_round\<close> leaves a
  double as it is, and reads any other real as the nearest double, as a decimal literal
  is read. A quotient by zero is an infinity or NaN, and so is every result with an
  operand that is not finite (the divisor, \<open>grid_width\<close>, is finite).
\<close>

definition double_sub :: "real \<Rightarrow> real \<Rightarrow> real option" where
  "double_sub a b =
     (case (double_round a, double_round b) of
        (Some x, Some y) \<Rightarrow> double_round (x - y)
      | _ \<Rightarrow> None)"

definition double_div :: "real option \<Rightarrow> real \<Rightarrow> real option" where
  "double_div a b =
     (case (a, double_round b) of
        (Some x, Some y) \<Rightarrow> if y = 0 then None else double_round (x / y)
      | _ \<Rightarrow> None)"

text \<open>
  \<open>std::ceil\<close> of a double, converted to \<open>int\<close>. The ceiling of a finite double is a
  double, so \<open>std::ceil\<close> does not round. C++ leaves the conversion undefined where the
  value is not finite or does not fit an \<open>int\<close>; the conversion instruction of the x86
  processor then gives \<open>INT_MIN\<close>, and so does the model.
\<close>

definition ceil_to_int :: "real option \<Rightarrow> i32" where
  "ceil_to_int d =
     (case d of
        None \<Rightarrow> - (2 ^ 31)
      | Some r \<Rightarrow>
          if - (2 ^ 31) \<le> \<lceil>r\<rceil> \<and> \<lceil>r\<rceil> < 2 ^ 31 then word_of_int \<lceil>r\<rceil> else - (2 ^ 31))"

subsection \<open>The cell of a position and the inverse of the hash\<close>

definition toIndex_vec :: "Grid \<Rightarrow> vec3 \<Rightarrow> i32 \<times> i32 \<times> i32" where
  "toIndex_vec g vec =
     (case (vec, lower_bounds g) of ((v0, v1, v2), (l0, l1, l2)) \<Rightarrow>
        (ceil_to_int (double_div (double_sub v0 l0) (grid_width g)),
         ceil_to_int (double_div (double_sub v1 l1) (grid_width g)),
         if dimension g = 3 then ceil_to_int (double_div (double_sub v2 l2) (grid_width g))
         else 0))"

definition toHash_vec :: "Grid \<Rightarrow> vec3 \<Rightarrow> i32" where
  "toHash_vec g vec = (case toIndex_vec g vec of (dx, dy, dz) \<Rightarrow> toHash g dx dy dz)"

definition toIndex2 :: "Grid \<Rightarrow> i32 \<Rightarrow> error + (i32 \<times> i32)" where
  "toIndex2 g hash =
     bind_err (int_div hash (grid_number0 g)) (\<lambda>dy.
     bind_err (int_mod hash (grid_number0 g)) (\<lambda>dx.
     Inr (dx, dy)))"

definition toIndex :: "Grid \<Rightarrow> i32 \<Rightarrow> error + (i32 \<times> i32 \<times> i32)" where
  "toIndex g hash =
     (if dimension g = 2 then
        bind_err (toIndex2 g hash) (\<lambda>(dx, dy). Inr (dx, dy, 0))
      else
        bind_err (int_div hash (grid_number1 g * grid_number0 g)) (\<lambda>dz.
        bind_err (int_mod hash (grid_number1 g * grid_number0 g)) (\<lambda>r1.
        bind_err (int_div r1 (grid_number0 g)) (\<lambda>dy.
        bind_err (int_mod hash (grid_number1 g * grid_number0 g)) (\<lambda>r2.
        bind_err (int_mod r2 (grid_number0 g)) (\<lambda>dx.
        Inr (dx, dy, dz)))))))"


section \<open>Notions used to state the properties\<close>

definition c0 :: "vec3 \<Rightarrow> real" where
  "c0 c = fst c"

definition c1 :: "vec3 \<Rightarrow> real" where
  "c1 c = fst (snd c)"

definition c2 :: "vec3 \<Rightarrow> real" where
  "c2 c = snd (snd c)"

text \<open>
  The specification's words for the bounds: the coordinates restricted to the valid
  entries, and their element-wise maximum and minimum.
\<close>

definition validColumns :: "Grid \<Rightarrow> vec3 list" where
  "validColumns g = map fst (filter snd (zip (coordinates g) (valid_coordinates g)))"

definition elementwiseMax :: "vec3 list \<Rightarrow> vec3" where
  "elementwiseMax cs = (Max (set (map c0 cs)), Max (set (map c1 cs)), Max (set (map c2 cs)))"

definition elementwiseMin :: "vec3 list \<Rightarrow> vec3" where
  "elementwiseMin cs = (Min (set (map c0 cs)), Min (set (map c1 cs)), Min (set (map c2 cs)))"

text \<open>The zero column that a masked-out particle leaves in the product.\<close>

definition maskedOrigin :: "Grid \<Rightarrow> vec3 list" where
  "maskedOrigin g = (if False \<in> set (valid_coordinates g) then [(0, 0, 0)] else [])"

text \<open>
  A cell index triple is in range when every participating axis lies in
  \<open>[0, grid_number)\<close>; the z axis participates unless \<open>dimension = 2\<close>. \<open>cellCount\<close> is
  the number of such cells, as an unbounded integer.
\<close>

definition inRange :: "Grid \<Rightarrow> i32 \<times> i32 \<times> i32 \<Rightarrow> bool" where
  "inRange g t = (case t of (ix, iy, iz) \<Rightarrow>
     0 \<le> sint ix \<and> sint ix < sint (grid_number0 g) \<and>
     0 \<le> sint iy \<and> sint iy < sint (grid_number1 g) \<and>
     (dimension g = 2 \<or> (0 \<le> sint iz \<and> sint iz < sint (grid_number2 g))))"

definition cellCount :: "Grid \<Rightarrow> int" where
  "cellCount g = sint (grid_number0 g) * sint (grid_number1 g) *
     (if dimension g = 2 then 1 else sint (grid_number2 g))"

section \<open>Construction and queries\<close>

text \<open>
  The header declares the constructor, \<open>setHash\<close>, \<open>getNeighbors\<close> and
  \<open>getNeighborsInBox\<close>; their bodies are in \<open>grid.cpp\<close>, which is not among the
  sources. The definitions of this section follow the specification instead.
\<close>

fun umap_set :: "'k \<Rightarrow> 'v \<Rightarrow> ('k \<times> 'v) list \<Rightarrow> ('k \<times> 'v) list" where
  "umap_set k v [] = [(k, v)]"
| "umap_set k v ((k', v') # m) = (if k' = k then (k, v) # m else (k', v') # umap_set k v m)"

text \<open>
  Modelled from the spec: the first half of \<open>Grid::setHash\<close> (body missing). For every
  valid particle, in index order, its hash by the cell indexer, paired with its index;
  invalid particles are neither hashed nor stored.
\<close>

fun hashValidParticles ::
  "Grid \<Rightarrow> nat \<Rightarrow> vec3 list \<Rightarrow> bool list \<Rightarrow> (i32 \<times> i32) list" where
  "hashValidParticles g i (c # cs) (v # vs) =
     (if v then (toHash_vec g c, of_nat i) # hashValidParticles g (Suc i) cs vs
      else hashValidParticles g (Suc i) cs vs)"
| "hashValidParticles g i cs vs = []"

text \<open>
  Modelled from the spec: the second half of \<open>Grid::setHash\<close> (body missing). One
  linear scan of the sorted pairs that records, for every distinct hash, the half-open
  range of offsets \<open>(begin, end)\<close> where it appears.
\<close>

fun scanRanges ::
  "nat \<Rightarrow> (i32 \<times> i32) list \<Rightarrow> (i32 \<times> (i32 \<times> i32)) list \<Rightarrow> (i32 \<times> (i32 \<times> i32)) list" where
  "scanRanges n [] m = m"
| "scanRanges n ((h, p) # ps) m =
     scanRanges (Suc n) ps
       (case umap_find m h of
          None \<Rightarrow> umap_set h (of_nat n, of_nat (Suc n)) m
        | Some (b, e) \<Rightarrow> umap_set h (b, of_nat (Suc n)) m)"

text \<open>
  Modelled from the spec: \<open>Grid::setHash\<close> (body missing). The pairs of the valid
  particles, stably sorted by ascending hash, become \<open>grid_hash\<close>; the ranges of the
  scan become \<open>begin_hash\<close>.
\<close>

definition setHash :: "Grid \<Rightarrow> Grid" where
  "setHash g =
     (let pairs = hashValidParticles g 0 (coordinates g) (valid_coordinates g);
          sorted = sort_key (\<lambda>p. sint (fst p)) pairs
      in g\<lparr>grid_hash := sorted, begin_hash := scanRanges 0 sorted []\<rparr>)"

text \<open>
  Modelled from the spec: the constructor \<open>Grid::Grid\<close> (body missing). Bounds, then
  the number of cells per axis, then the buckets. The specification only says that the
  number of cells is derived from \<open>(upperBound - lowerBound) / cellWidth\<close>, so that
  derivation is the parameter \<open>cells\<close>, which gets the upper bound, the lower bound and
  the cell width of an axis. A dimension other than 2 or 3 and a mask
  without a valid particle are the precondition violations the specification names; the
  particle count must fit the \<open>int\<close> field \<open>size\<close>.
\<close>

definition Grid_ctor ::
  "(real \<Rightarrow> real \<Rightarrow> real \<Rightarrow> i32) \<Rightarrow> real \<Rightarrow> vec3 list \<Rightarrow> bool list \<Rightarrow> i32 \<Rightarrow>
     error + Grid" where
  "Grid_ctor cells width cs vs dimen =
     (if (dimen \<noteq> 2 \<and> dimen \<noteq> 3) \<or> True \<notin> set vs \<or> 2 ^ 31 \<le> length cs
      then Inl PreconditionViolated
      else
        let g0 = \<lparr>dimension = dimen, size_grid = of_nat (length cs), grid_width = width,
                  coordinates = cs, valid_coordinates = vs,
                  higher_bounds = (0, 0, 0), lower_bounds = (0, 0, 0),
                  grid_number = (0, 0, 0), grid_hash = [], begin_hash = []\<rparr> in
        bind_err (getMaxCoordinates g0) (\<lambda>hi.
        bind_err (getMinCoordinates g0) (\<lambda>lo.
        Inr (setHash (g0\<lparr>higher_bounds := hi, lower_bounds := lo,
                         grid_number := (cells (c0 hi) (c0 lo) width,
                                         cells (c1 hi) (c1 lo) width,
                                         cells (c2 hi) (c2 lo) width)\<rparr>)))))"

text \<open>
  Modelled from the spec: the cell traversal of the two queries (bodies missing). The
  \<open>3 ^ dimension\<close> cell triples around a cell, the cell itself included.
\<close>

definition neighborCells :: "Grid \<Rightarrow> i32 \<times> i32 \<times> i32 \<Rightarrow> (i32 \<times> i32 \<times> i32) list" where
  "neighborCells g c = (case c of (ix, iy, iz) \<Rightarrow>
     if dimension g = 2
     then concat (map (\<lambda>b. map (\<lambda>a. (ix + a, iy + b, iz)) [- 1, 0, 1]) [- 1, 0, 1])
     else concat (map (\<lambda>c. concat (map (\<lambda>b. map (\<lambda>a. (ix + a, iy + b, iz + c))
            [- 1, 0, 1]) [- 1, 0, 1])) [- 1, 0, 1]))"

text \<open>
  Modelled from the spec: the particle indices of one bucket (part of the missing query
  bodies), the half-open slice \<open>[begin, end)\<close> of \<open>grid_hash\<close>; the range
  \<open>(-1, -1)\<close> of an absent hash is empty.
\<close>

definition bucketSlice :: "Grid \<Rightarrow> i32 \<times> i32 \<Rightarrow> i32 list" where
  "bucketSlice g r = (case r of (b, e) \<Rightarrow>
     if sint b < 0 \<or> sint e < 0 then []
     else map snd (take (nat (sint e) - nat (sint b)) (drop (nat (sint b)) (grid_hash g))))"

text \<open>
  Modelled from the spec: the loop over the visited cells (part of the missing query
  bodies). A cell triple outside the grid on any axis holds no particles; every other
  cell contributes its bucket, in bucket order.
\<close>

fun collectCells :: "Grid \<Rightarrow> (i32 \<times> i32 \<times> i32) list \<Rightarrow> error + i32 list" where
  "collectCells g [] = Inr []"
| "collectCells g ((ix, iy, iz) # cells) =
     (if inRange g (ix, iy, iz) then
        bind_err (getGridHashBegin g (toHash g ix iy iz)) (\<lambda>r.
        bind_err (collectCells g cells) (\<lambda>rest.
        Inr (bucketSlice g r @ rest)))
      else collectCells g cells)"

text \<open>
  Modelled from the spec: the read of one particle's position (part of the missing query
  bodies); an index outside \<open>[0, size)\<close> is a precondition violation.
\<close>

definition particleAt :: "Grid \<Rightarrow> i32 \<Rightarrow> error + vec3" where
  "particleAt g index =
     (if 0 \<le> sint index \<and> sint index < sint (size_grid g) \<and>
         nat (sint index) < length (coordinates g)
      then Inr (coordinates g ! nat (sint index)) else Inl IndexOutOfBounds)"

text \<open>
  Modelled from the spec: \<open>Grid::getNeighborsInBox\<close> (body missing). The cell of the
  query particle, then every particle of the surrounding cells, unfiltered.
\<close>

definition getNeighborsInBox :: "Grid \<Rightarrow> i32 \<Rightarrow> error + i32 list" where
  "getNeighborsInBox g index =
     bind_err (particleAt g index) (\<lambda>ri.
     collectCells g (neighborCells g (toIndex_vec g ri)))"

definition distance :: "vec3 \<Rightarrow> vec3 \<Rightarrow> real" where
  "distance p q = sqrt ((c0 p - c0 q)\<^sup>2 + (c1 p - c1 q)\<^sup>2 + (c2 p - c2 q)\<^sup>2)"

text \<open>
  Modelled from the spec: the distance filter of \<open>Grid::getNeighbors\<close> (body missing).
  A candidate is discarded when its Euclidean distance to the query particle exceeds
  the cell width.
\<close>

fun withinRadius :: "Grid \<Rightarrow> vec3 \<Rightarrow> i32 list \<Rightarrow> error + i32 list" where
  "withinRadius g ri [] = Inr []"
| "withinRadius g ri (j # js) =
     bind_err (particleAt g j) (\<lambda>rj.
     bind_err (withinRadius g ri js) (\<lambda>rest.
     Inr (if distance ri rj \<le> grid_width g then j # rest else rest)))"

text \<open>
  Modelled from the spec: \<open>Grid::getNeighbors\<close> (body missing). The same traversal as
  \<open>getNeighborsInBox\<close>, followed by the distance filter.
\<close>

definition getNeighbors :: "Grid \<Rightarrow> i32 \<Rightarrow> error + i32 list" where
  "getNeighbors g index =
     bind_err (particleAt g index) (\<lambda>ri.
     bind_err (getNeighborsInBox g index) (\<lambda>candidates.
     withinRadius g ri candidates))"

text \<open>
  The invariant of a constructed grid: one mask entry per particle, a particle count
  that fits \<open>size\<close>, and only indices of valid particles in \<open>grid_hash\<close>.
\<close>

definition constructed :: "Grid \<Rightarrow> bool" where
  "constructed g =
     (length (coordinates g) = length (valid_coordinates g) \<and>
      length (coordinates g) < 2 ^ 31 \<and>
      size_grid g = of_nat (length (coordinates g)) \<and>
      (\<forall>p\<in>snd ` set (grid_hash g).
         \<exists>k<length (coordinates g). valid_coordinates g ! k \<and> p = of_nat k))"

section \<open>Example grids\<close>

text \<open>A two-dimensional grid with one valid particle and one ghost particle.\<close>

definition ghostGrid :: Grid where
  "ghostGrid = \<lparr>dimension = 2, size_grid = 2, grid_width = 1,
     coordinates = [(1, 2, 3), (9, 9, 9)], valid_coordinates = [True, False],
     higher_bounds = (0, 0, 0), lower_bounds = (0, 0, 0), grid_number = (1, 1, 1),
     grid_hash = [], begin_hash = []\<rparr>"

text \<open>A two-dimensional grid of 4 by 3 cells, and the same cells in three dimensions.\<close>

definition flatGrid :: Grid where
  "flatGrid = \<lparr>dimension = 2, size_grid = 0, grid_width = 1, coordinates = [],
     valid_coordinates = [], higher_bounds = (0, 0, 0), lower_bounds = (0, 0, 0),
     grid_number = (4, 3, 5), grid_hash = [], begin_hash = [(0, (0, 2))]\<rparr>"

definition boxGrid :: Grid where
  "boxGrid = flatGrid\<lparr>dimension := 3\<rparr>"

text \<open>A three-dimensional grid with \<open>2 ^ 33\<close> cells, more than an \<open>int\<close> can count.\<close>

definition bigGrid :: Grid where
  "bigGrid = \<lparr>dimension = 3, size_grid = 0, grid_width = 1, coordinates = [],
     valid_coordinates = [], higher_bounds = (0, 0, 0), lower_bounds = (0, 0, 0),
     grid_number = (65536, 65536, 2), grid_hash = [], begin_hash = []\<rparr>"

text \<open>
  The specification's first two scenarios: particles at \<open>(0, 0)\<close>, \<open>(0.5, 0)\<close> and
  \<open>(2, 0)\<close> with cell width 1, all valid or the middle one invalid; and a derivation
  of the number of cells that covers the bounds.
\<close>

definition ceilPlusOne :: "real \<Rightarrow> real \<Rightarrow> real \<Rightarrow> i32" where
  "ceilPlusOne hi lo width = ceil_to_int (double_div (double_sub hi lo) width) + 1"

definition scenario1Grid :: Grid where
  "scenario1Grid = \<lparr>dimension = 2, size_grid = 3, grid_width = 1,
     coordinates = [(0, 0, 0), (1 / 2, 0, 0), (2, 0, 0)],
     valid_coordinates = [True, True, True],
     higher_bounds = (2, 0, 0), lower_bounds = (0, 0, 0), grid_number = (3, 1, 1),
     grid_hash = [(0, 0), (1, 1), (2, 2)],
     begin_hash = [(0, (0, 1)), (1, (1, 2)), (2, (2, 3))]\<rparr>"

definition scenarioGrid :: Grid where
  "scenarioGrid = \<lparr>dimension = 2, size_grid = 3, grid_width = 1,
     coordinates = [(0, 0, 0), (1 / 2, 0, 0), (2, 0, 0)],
     valid_coordinates = [True, False, True],
     higher_bounds = (2, 0, 0), lower_bounds = (0, 0, 0), grid_number = (3, 1, 1),
     grid_hash = [(0, 0), (2, 2)],
     begin_hash = [(0, (0, 1)), (2, (1, 2))]\<rparr>"

section \<open>The bucket lookup never fails\<close>

lemma getGridHashBegin_eq:
  "getGridHashBegin g hash =
     Inr (case umap_find (begin_hash g) hash of None \<Rightarrow> (- 1, - 1) | Some p \<Rightarrow> p)"
  by (auto simp: getGridHashBegin_def umap_empty_def umap_find_def umap_at_def bind_err_def
      split: option.splits)

text \<open>
  C7: a hash that is absent from the bucket mapping, or any hash when the mapping is
  empty, gets the empty range \<open>(-1, -1)\<close> from \<open>getGridHashBegin\<close>, and no error. This
  holds for every hash, so also for the hash of a cell outside the grid near the
  boundary of the domain, whenever that hash has no bucket.
\<close>

theorem getGridHashBegin_absent:
  "umap_empty (begin_hash g) \<or> umap_find (begin_hash g) hash = None \<Longrightarrow>
   getGridHashBegin g hash = Inr (- 1, - 1)"
  by (auto simp: getGridHashBegin_def)

theorem getGridHashBegin_absent_witness:
  "umap_find (begin_hash flatGrid) 7 = None \<and> getGridHashBegin flatGrid 7 = Inr (- 1, - 1) \<and>
   umap_empty (begin_hash bigGrid) \<and> getGridHashBegin bigGrid 0 = Inr (- 1, - 1)"
  using getGridHashBegin_absent [of flatGrid 7] getGridHashBegin_absent [of bigGrid 0]
  by (simp add: flatGrid_def bigGrid_def umap_find_def umap_empty_def)

text \<open>
  C10: \<open>getGridHashBegin\<close> returns for every hash, and what it returns is the stored
  pair \<open>(begin, end)\<close> or the sentinel \<open>(-1, -1)\<close>: both calls of \<open>at\<close> come after a
  successful \<open>find\<close> on a map that is not empty, so \<open>at\<close> never throws.
\<close>

theorem getGridHashBegin_total:
  "\<exists>b e. getGridHashBegin g hash = Inr (b, e) \<and>
     (umap_find (begin_hash g) hash = Some (b, e) \<or> (b, e) = (- 1, - 1))"
  by (cases "umap_find (begin_hash g) hash") (auto simp: getGridHashBegin_eq)

section \<open>The hash of a cell index triple\<close>

text \<open>
  C5: with \<open>Nx = grid_number[0]\<close> and \<open>Ny = grid_number[1]\<close>, \<open>toHash\<close> returns
  \<open>ix + iy * Nx + iz * Nx * Ny\<close> when the dimension is 3, and \<open>ix + iy * Nx\<close>, without
  any z term, when the dimension is 2.
\<close>

theorem toHash_formula:
  "(dimension g = 3 \<longrightarrow>
      toHash g ix iy iz = ix + iy * grid_number0 g + iz * grid_number0 g * grid_number1 g) \<and>
   (dimension g = 2 \<longrightarrow> toHash g ix iy iz = ix + iy * grid_number0 g)"
  by (simp add: toHash_def toHash2_def mult.assoc mult.commute)

theorem toHash_formula_witness:
  "dimension boxGrid = 3 \<and> toHash boxGrid 1 2 3 = 1 + 2 * 4 + 3 * 4 * 3 \<and>
   dimension flatGrid = 2 \<and> toHash flatGrid 1 2 3 = 1 + 2 * 4"
  using toHash_formula [of boxGrid 1 2 3] toHash_formula [of flatGrid 1 2 3]
  by (simp add: boxGrid_def flatGrid_def grid_number0_def grid_number1_def)

text \<open>The identity \<open>(a / b) * b + a % b = a\<close> of truncating division, on 32-bit words.\<close>

lemma smod_sdiv_word:
  "word_of_int (sint h smod sint n) + word_of_int (sint h sdiv sint n) * n = (h::i32)"
proof -
  have "word_of_int (sint h smod sint n) + word_of_int (sint h sdiv sint n) * n
      = (word_of_int (sint h smod sint n + (sint h sdiv sint n) * sint n) :: i32)"
    by simp
  also have "\<dots> = word_of_int (sint h)"
    by (simp only: smod_sdiv_mult_eq)
  finally show ?thesis by simp
qed

text \<open>
  C9: for every hash, negative ones included, and every grid with \<open>grid_number[0] > 0\<close>,
  the two-dimensional \<open>toIndex\<close> sets \<open>dx = hash % Nx\<close> and \<open>dy = hash / Nx\<close> by
  truncating division, and the two-dimensional \<open>toHash\<close> of these gives the hash back.
\<close>

theorem toIndex2_toHash2_identity:
  "0 < sint (grid_number0 g) \<Longrightarrow>
   \<exists>dx dy. toIndex2 g hash = Inr (dx, dy) \<and>
     dx = word_of_int (sint hash smod sint (grid_number0 g)) \<and>
     dy = word_of_int (sint hash sdiv sint (grid_number0 g)) \<and>
     toHash2 g dx dy = hash"
  by (auto simp: toIndex2_def int_div_def int_mod_def bind_err_def toHash2_def smod_sdiv_word)

theorem toIndex2_toHash2_identity_witness:
  "0 < sint (grid_number0 flatGrid) \<and> toIndex2 flatGrid (- 7) = Inr (- 3, - 1) \<and>
   toHash2 flatGrid (- 3) (- 1) = - 7"
  using toIndex2_toHash2_identity [of flatGrid "- 7"]
  by (simp add: flatGrid_def grid_number0_def toHash2_def signed_divide_int_def
      signed_modulo_int_def)

section \<open>The bounds of the masked coordinates\<close>

lemma fold_max3_components:
  "c0 (fold max3 cs a) = fold max (map c0 cs) (c0 a) \<and>
   c1 (fold max3 cs a) = fold max (map c1 cs) (c1 a) \<and>
   c2 (fold max3 cs a) = fold max (map c2 cs) (c2 a)"
proof (induction cs arbitrary: a)
  case Nil
  show ?case by simp
next
  case (Cons c cs)
  have "c0 (max3 c a) = max (c0 c) (c0 a)" "c1 (max3 c a) = max (c1 c) (c1 a)"
       "c2 (max3 c a) = max (c2 c) (c2 a)"
    by (simp_all add: max3_def c0_def c1_def c2_def split: prod.splits add: max.commute)
  with Cons.IH [of "max3 c a"] show ?case by simp
qed

lemma fold_min3_components:
  "c0 (fold min3 cs a) = fold min (map c0 cs) (c0 a) \<and>
   c1 (fold min3 cs a) = fold min (map c1 cs) (c1 a) \<and>
   c2 (fold min3 cs a) = fold min (map c2 cs) (c2 a)"
proof (induction cs arbitrary: a)
  case Nil
  show ?case by simp
next
  case (Cons c cs)
  have "c0 (min3 c a) = min (c0 c) (c0 a)" "c1 (min3 c a) = min (c1 c) (c1 a)"
       "c2 (min3 c a) = min (c2 c) (c2 a)"
    by (simp_all add: min3_def c0_def c1_def c2_def split: prod.splits add: min.commute)
  with Cons.IH [of "min3 c a"] show ?case by simp
qed

lemma fold_max_Max: "fold max xs (x::real) = Max (insert x (set xs))"
  using Max.set_eq_fold [of x xs] by simp

lemma fold_min_Min: "fold min xs (x::real) = Min (insert x (set xs))"
  using Min.set_eq_fold [of x xs] by simp

lemma vec3_eqI: "c0 a = c0 b \<Longrightarrow> c1 a = c1 b \<Longrightarrow> c2 a = c2 b \<Longrightarrow> a = b"
  by (simp add: c0_def c1_def c2_def prod_eq_iff)

lemma rowwise_maxCoeff_eq:
  "cs \<noteq> [] \<Longrightarrow> rowwise_maxCoeff cs = Inr (elementwiseMax cs)"
proof (cases cs)
  case Nil
  assume "cs \<noteq> []" with Nil show ?thesis by simp
next
  case (Cons a as)
  have "fold max3 as a = elementwiseMax (a # as)"
    by (rule vec3_eqI)
       (simp_all add: fold_max3_components elementwiseMax_def fold_max_Max
          c0_def [of "(_, _)"] c1_def [of "(_, _)"] c2_def [of "(_, _)"])
  with Cons show ?thesis by simp
qed

lemma rowwise_minCoeff_eq:
  "cs \<noteq> [] \<Longrightarrow> rowwise_minCoeff cs = Inr (elementwiseMin cs)"
proof (cases cs)
  case Nil
  assume "cs \<noteq> []" with Nil show ?thesis by simp
next
  case (Cons a as)
  have "fold min3 as a = elementwiseMin (a # as)"
    by (rule vec3_eqI)
       (simp_all add: fold_min3_components elementwiseMin_def fold_min_Min
          c0_def [of "(_, _)"] c1_def [of "(_, _)"] c2_def [of "(_, _)"])
  with Cons show ?thesis by simp
qed

text \<open>
  The columns of the product are the valid columns, and the zero column as soon as one
  particle is masked out.
\<close>

lemma set_masked:
  "length cs = length ms \<Longrightarrow>
   set (map2 maskColumn cs ms) =
     set (map fst (filter snd (zip cs ms))) \<union> (if False \<in> set ms then {(0, 0, 0)} else {})"
proof (induction cs ms rule: list_induct2)
  case Nil
  show ?case by simp
next
  case (Cons c cs m ms)
  have "maskColumn c True = c" "maskColumn c False = (0, 0, 0)"
    by (simp_all add: maskColumn_def split: prod.splits)
  with Cons.IH show ?case by (cases m) auto
qed

lemma elementwiseMax_set: "set cs = set ds \<Longrightarrow> elementwiseMax cs = elementwiseMax ds"
  by (simp add: elementwiseMax_def)

lemma elementwiseMin_set: "set cs = set ds \<Longrightarrow> elementwiseMin cs = elementwiseMin ds"
  by (simp add: elementwiseMin_def)

lemma masked_set:
  assumes "length (coordinates g) = length (valid_coordinates g)"
  shows "maskedCoordinates g = Inr (map2 maskColumn (coordinates g) (valid_coordinates g))"
    and "set (map2 maskColumn (coordinates g) (valid_coordinates g)) =
         set (validColumns g @ maskedOrigin g)"
  using assms set_masked [OF assms]
  by (simp_all add: maskedCoordinates_def validColumns_def maskedOrigin_def)

lemma bounds_formula:
  assumes len: "length (coordinates g) = length (valid_coordinates g)"
      and val: "True \<in> set (valid_coordinates g)"
  shows "getMaxCoordinates g = Inr (elementwiseMax (validColumns g @ maskedOrigin g))"
    and "getMinCoordinates g = Inr (elementwiseMin (validColumns g @ maskedOrigin g))"
proof -
  let ?m = "map2 maskColumn (coordinates g) (valid_coordinates g)"
  from val len have ne: "?m \<noteq> []"
    by (cases "coordinates g"; cases "valid_coordinates g") auto
  show "getMaxCoordinates g = Inr (elementwiseMax (validColumns g @ maskedOrigin g))"
    using masked_set [OF len] rowwise_maxCoeff_eq [OF ne] elementwiseMax_set [of ?m]
    by (simp add: getMaxCoordinates_def bind_err_def)
  show "getMinCoordinates g = Inr (elementwiseMin (validColumns g @ maskedOrigin g))"
    using masked_set [OF len] rowwise_minCoeff_eq [OF ne] elementwiseMin_set [of ?m]
    by (simp add: getMinCoordinates_def bind_err_def)
qed

lemma validColumns_cong:
  "length cs' = length cs \<Longrightarrow> length cs = length ms \<Longrightarrow>
   (\<forall>i<length cs. ms ! i \<longrightarrow> cs' ! i = cs ! i) \<Longrightarrow>
   map fst (filter snd (zip cs' ms)) = map fst (filter snd (zip cs ms))"
proof (induction cs' cs ms rule: list_induct3)
  case Nil
  show ?case by simp
next
  case (Cons c' cs' c cs m ms)
  from Cons.prems have hd: "m \<longrightarrow> c' = c" by auto
  from Cons.prems have "\<forall>i<length cs. ms ! i \<longrightarrow> cs' ! i = cs ! i" by fastforce
  with Cons.IH hd show ?case by simp
qed

text \<open>
  C1, as the code has it: for a coordinates matrix and a validity mask of the same
  length with at least one valid particle, \<open>getMaxCoordinates\<close> and \<open>getMinCoordinates\<close>
  return the element-wise maximum and minimum of the valid columns together with the
  zero column whenever a particle is masked out, on all three axes and whatever the
  dimension. The values of a masked-out particle's coordinates have no influence on
  the result.
\<close>

theorem bounds_of_masked_coordinates:
  assumes len: "length (coordinates g) = length (valid_coordinates g)"
      and val: "True \<in> set (valid_coordinates g)"
  shows "getMaxCoordinates g = Inr (elementwiseMax (validColumns g @ maskedOrigin g)) \<and>
         getMinCoordinates g = Inr (elementwiseMin (validColumns g @ maskedOrigin g)) \<and>
         (\<forall>d. getMaxCoordinates (g\<lparr>dimension := d\<rparr>) = getMaxCoordinates g \<and>
              getMinCoordinates (g\<lparr>dimension := d\<rparr>) = getMinCoordinates g) \<and>
         (\<forall>cs'. length cs' = length (coordinates g) \<and>
                 (\<forall>i<length cs'. valid_coordinates g ! i \<longrightarrow> cs' ! i = coordinates g ! i) \<longrightarrow>
                 getMaxCoordinates (g\<lparr>coordinates := cs'\<rparr>) = getMaxCoordinates g \<and>
                 getMinCoordinates (g\<lparr>coordinates := cs'\<rparr>) = getMinCoordinates g)"
proof -
  have dim: "getMaxCoordinates (g\<lparr>dimension := d\<rparr>) = getMaxCoordinates g \<and>
             getMinCoordinates (g\<lparr>dimension := d\<rparr>) = getMinCoordinates g" for d
    by (simp add: getMaxCoordinates_def getMinCoordinates_def maskedCoordinates_def)
  have ind: "getMaxCoordinates (g\<lparr>coordinates := cs'\<rparr>) = getMaxCoordinates g \<and>
             getMinCoordinates (g\<lparr>coordinates := cs'\<rparr>) = getMinCoordinates g"
    if len': "length cs' = length (coordinates g)"
      and agree: "\<forall>i<length cs'. valid_coordinates g ! i \<longrightarrow> cs' ! i = coordinates g ! i"
    for cs'
  proof -
    let ?g' = "g\<lparr>coordinates := cs'\<rparr>"
    have v: "validColumns ?g' = validColumns g"
      using validColumns_cong [OF len' len] agree len' by (simp add: validColumns_def)
    have o: "maskedOrigin ?g' = maskedOrigin g" by (simp add: maskedOrigin_def)
    have l: "length (coordinates ?g') = length (valid_coordinates ?g')" using len len' by simp
    have t: "True \<in> set (valid_coordinates ?g')" using val by simp
    show ?thesis
      using bounds_formula [OF len val] bounds_formula [OF l t] by (simp only: v o)
  qed
  show ?thesis
  proof (intro conjI)
    show "getMaxCoordinates g = Inr (elementwiseMax (validColumns g @ maskedOrigin g))"
      by (rule bounds_formula(1) [OF len val])
    show "getMinCoordinates g = Inr (elementwiseMin (validColumns g @ maskedOrigin g))"
      by (rule bounds_formula(2) [OF len val])
    show "\<forall>d. getMaxCoordinates (g\<lparr>dimension := d\<rparr>) = getMaxCoordinates g \<and>
              getMinCoordinates (g\<lparr>dimension := d\<rparr>) = getMinCoordinates g"
      by (rule allI) (rule dim)
    show "\<forall>cs'. length cs' = length (coordinates g) \<and>
                 (\<forall>i<length cs'. valid_coordinates g ! i \<longrightarrow> cs' ! i = coordinates g ! i) \<longrightarrow>
                 getMaxCoordinates (g\<lparr>coordinates := cs'\<rparr>) = getMaxCoordinates g \<and>
                 getMinCoordinates (g\<lparr>coordinates := cs'\<rparr>) = getMinCoordinates g"
    proof (intro allI impI)
      fix cs'
      assume a: "length cs' = length (coordinates g) \<and>
                 (\<forall>i<length cs'. valid_coordinates g ! i \<longrightarrow> cs' ! i = coordinates g ! i)"
      show "getMaxCoordinates (g\<lparr>coordinates := cs'\<rparr>) = getMaxCoordinates g \<and>
            getMinCoordinates (g\<lparr>coordinates := cs'\<rparr>) = getMinCoordinates g"
        by (rule ind [OF conjunct1 [OF a] conjunct2 [OF a]])
    qed
  qed
qed

theorem bounds_of_masked_coordinates_witness:
  "length (coordinates ghostGrid) = length (valid_coordinates ghostGrid) \<and>
   True \<in> set (valid_coordinates ghostGrid) \<and>
   getMaxCoordinates ghostGrid = Inr (elementwiseMax [(1, 2, 3), (0, 0, 0)]) \<and>
   getMinCoordinates ghostGrid = Inr (elementwiseMin [(1, 2, 3), (0, 0, 0)]) \<and>
   getMinCoordinates (ghostGrid\<lparr>coordinates := [(1, 2, 3), (- 4, 5, 6)]\<rparr>) =
     getMinCoordinates ghostGrid"
proof -
  have len: "length (coordinates ghostGrid) = length (valid_coordinates ghostGrid)"
    and val: "True \<in> set (valid_coordinates ghostGrid)"
    by (simp_all add: ghostGrid_def)
  have agree: "length [(1, 2, 3), (- 4, 5, 6)] = length (coordinates ghostGrid) \<and>
    (\<forall>i<length [(1::real, 2::real, 3::real), (- 4, 5, 6)].
       valid_coordinates ghostGrid ! i \<longrightarrow>
       [(1, 2, 3), (- 4, 5, 6)] ! i = coordinates ghostGrid ! i)"
    by (simp add: ghostGrid_def less_Suc_eq)
  have vc: "validColumns ghostGrid @ maskedOrigin ghostGrid = [(1, 2, 3), (0, 0, 0)]"
    by (simp add: validColumns_def maskedOrigin_def ghostGrid_def)
  note t = bounds_of_masked_coordinates [OF len val]
  have mx: "getMaxCoordinates ghostGrid = Inr (elementwiseMax [(1, 2, 3), (0, 0, 0)])"
    using t [THEN conjunct1] by (simp only: vc)
  have mn: "getMinCoordinates ghostGrid = Inr (elementwiseMin [(1, 2, 3), (0, 0, 0)])"
    using t [THEN conjunct2, THEN conjunct1] by (simp only: vc)
  note i = t [THEN conjunct2, THEN conjunct2, THEN conjunct2, THEN spec, THEN mp, OF agree]
  from len val mx mn i [THEN conjunct2] show ?thesis by (intro conjI)
qed

text \<open>
  C1, as the specification states it, fails: with a valid particle at \<open>(1, 2, 3)\<close> and a
  ghost particle, in two dimensions, the minimum is the origin and not the minimum
  \<open>(1, 2, 3)\<close> of the valid coordinates, and the z component of the maximum is 3, not 0.
\<close>

theorem bounds_restricted_counterexample:
  "getMinCoordinates ghostGrid = Inr (0, 0, 0) \<and>
   elementwiseMin (validColumns ghostGrid) = (1, 2, 3) \<and>
   dimension ghostGrid = 2 \<and> getMaxCoordinates ghostGrid = Inr (1, 2, 3)"
  by (simp add: ghostGrid_def getMaxCoordinates_def getMinCoordinates_def
      maskedCoordinates_def bind_err_def maskColumn_def max3_def min3_def elementwiseMin_def
      validColumns_def c0_def c1_def c2_def)

text \<open>
  C8: for a coordinates matrix with finite entries and a validity mask of the same length
  with at least one false entry, every component of the result of \<open>getMaxCoordinates\<close>
  is at least 0 and every component of the result of \<open>getMinCoordinates\<close> is at most 0.
\<close>

theorem bounds_sign:
  assumes len: "length (coordinates g) = length (valid_coordinates g)"
      and inv: "False \<in> set (valid_coordinates g)"
  shows "(\<exists>hx hy hz. getMaxCoordinates g = Inr (hx, hy, hz) \<and> 0 \<le> hx \<and> 0 \<le> hy \<and> 0 \<le> hz) \<and>
         (\<exists>lx ly lz. getMinCoordinates g = Inr (lx, ly, lz) \<and> lx \<le> 0 \<and> ly \<le> 0 \<and> lz \<le> 0)"
proof -
  define m where "m = map2 maskColumn (coordinates g) (valid_coordinates g)"
  have mem: "(0, 0, 0) \<in> set m"
    using set_masked [OF len] inv by (simp add: m_def)
  then have ne: "m \<noteq> []" by auto
  have mc: "maskedCoordinates g = Inr m" using len by (simp add: maskedCoordinates_def m_def)
  have z: "(0::real) \<in> set (map c0 m)" "(0::real) \<in> set (map c1 m)"
    "(0::real) \<in> set (map c2 m)"
    using imageI [OF mem, of c0] imageI [OF mem, of c1] imageI [OF mem, of c2]
    by (simp_all add: c0_def c1_def c2_def)
  have "0 \<le> Max (set (map c0 m))" "0 \<le> Max (set (map c1 m))" "0 \<le> Max (set (map c2 m))"
    using z by (simp_all only: Max_ge List.finite_set)
  then have mx: "\<exists>hx hy hz. getMaxCoordinates g = Inr (hx, hy, hz) \<and>
      0 \<le> hx \<and> 0 \<le> hy \<and> 0 \<le> hz"
    using mc rowwise_maxCoeff_eq [OF ne]
    by (simp add: getMaxCoordinates_def bind_err_def elementwiseMax_def)
  have "Min (set (map c0 m)) \<le> 0" "Min (set (map c1 m)) \<le> 0" "Min (set (map c2 m)) \<le> 0"
    using z by (simp_all only: Min_le List.finite_set)
  then have mn: "\<exists>lx ly lz. getMinCoordinates g = Inr (lx, ly, lz) \<and>
      lx \<le> 0 \<and> ly \<le> 0 \<and> lz \<le> 0"
    using mc rowwise_minCoeff_eq [OF ne]
    by (simp add: getMinCoordinates_def bind_err_def elementwiseMin_def)
  from mx mn show ?thesis by blast
qed

theorem bounds_sign_witness:
  "length (coordinates (ghostGrid\<lparr>coordinates := [(- 1, - 2, - 3), (9, 9, 9)]\<rparr>)) =
     length (valid_coordinates ghostGrid) \<and>
   False \<in> set (valid_coordinates ghostGrid) \<and>
   getMaxCoordinates (ghostGrid\<lparr>coordinates := [(- 1, - 2, - 3), (9, 9, 9)]\<rparr>) = Inr (0, 0, 0) \<and>
   getMinCoordinates (ghostGrid\<lparr>coordinates := [(- 1, - 2, - 3), (9, 9, 9)]\<rparr>) =
     Inr (- 1, - 2, - 3)"
  using bounds_sign [of "ghostGrid\<lparr>coordinates := [(- 1, - 2, - 3), (9, 9, 9)]\<rparr>"]
  by (simp add: ghostGrid_def getMaxCoordinates_def getMinCoordinates_def
      maskedCoordinates_def bind_err_def maskColumn_def max3_def min3_def)

section \<open>The rounding of double arithmetic\<close>

text \<open>\<open>bit_length\<close> counts binary digits, and \<open>binade\<close> brackets its argument.\<close>

lemma bit_length_bounds:
  "0 < n \<Longrightarrow> 2 ^ (bit_length n - 1) \<le> n \<and> n < 2 ^ bit_length n"
proof (induction n rule: bit_length.induct)
  case (1 n)
  show ?case
  proof (cases "n = 1")
    case True
    then show ?thesis by (simp add: bit_length.simps)
  next
    case False
    with "1.prems" have h: "0 < n div 2" by simp
    from "1.IH" [OF _ h] "1.prems"
    have ih: "2 ^ (bit_length (n div 2) - 1) \<le> n div 2" "n div 2 < 2 ^ bit_length (n div 2)"
      by simp_all
    have pos: "0 < bit_length (n div 2)" using h by (subst bit_length.simps) simp
    have bl: "bit_length n = Suc (bit_length (n div 2))"
      using "1.prems" by (subst bit_length.simps) simp
    from pos obtain k where k: "bit_length (n div 2) = Suc k" by (cases "bit_length (n div 2)") auto
    from ih k have "2 * 2 ^ k \<le> 2 * (n div 2)" "2 * (n div 2) + 1 < 2 * 2 ^ Suc k"
      by simp_all
    moreover have "2 * (n div 2) \<le> n" "n \<le> 2 * (n div 2) + 1" by presburger+
    ultimately show ?thesis by (simp add: bl k)
  qed
qed

lemma pow2_pos: "0 < pow2 e"
  by (simp add: pow2_def)

lemma pow2_Suc: "pow2 (e + 1) = 2 * pow2 e"
proof (cases "0 \<le> e")
  case True
  then show ?thesis by (simp add: pow2_def nat_add_distrib)
next
  case False
  then have "nat (- e) = Suc (nat (- (e + 1)))" by simp
  then show ?thesis using False by (simp add: pow2_def)
qed

lemma binade_bounds:
  assumes "x \<noteq> 0"
  shows "pow2 (binade x) \<le> \<bar>x\<bar> \<and> \<bar>x\<bar> < pow2 (binade x + 1)"
proof (cases "1 \<le> \<bar>x\<bar>")
  case True
  define n where "n = \<lfloor>\<bar>x\<bar>\<rfloor>"
  have n: "0 < n" using True by (simp add: n_def)
  from bit_length_bounds [OF n] have b: "2 ^ (bit_length n - 1) \<le> n" "n < 2 ^ bit_length n"
    by simp_all
  have pos: "0 < bit_length n" using n by (subst bit_length.simps) simp
  have be: "binade x = int (bit_length n) - 1" using True by (simp add: binade_def n_def)
  have p1: "pow2 (binade x) = 2 ^ (bit_length n - 1)"
    using pos by (simp add: be pow2_def nat_diff_distrib)
  have p2: "pow2 (binade x + 1) = 2 ^ bit_length n"
    by (simp add: be pow2_def)
  have "real_of_int (2 ^ (bit_length n - 1)) \<le> real_of_int n" using b(1) by (simp only: of_int_le_iff)
  also have "\<dots> \<le> \<bar>x\<bar>" by (simp add: n_def)
  finally have lo: "pow2 (binade x) \<le> \<bar>x\<bar>" by (simp add: p1)
  have "n + 1 \<le> 2 ^ bit_length n" using b(2) by simp
  then have "real_of_int (n + 1) \<le> real_of_int (2 ^ bit_length n)" by (simp only: of_int_le_iff)
  moreover have "\<bar>x\<bar> < real_of_int (n + 1)" by (simp add: n_def)
  ultimately have "\<bar>x\<bar> < pow2 (binade x + 1)" by (simp add: p2)
  with lo show ?thesis by simp
next
  case False
  define r where "r = 1 / \<bar>x\<bar>"
  have xpos: "0 < \<bar>x\<bar>" using assms by simp
  have r1: "1 < r" using False xpos by (simp add: r_def)
  define m where "m = \<lceil>r\<rceil> - 1"
  have m: "0 < m" using r1 by (simp add: m_def less_ceiling_iff)
  from bit_length_bounds [OF m] have b: "2 ^ (bit_length m - 1) \<le> m" "m < 2 ^ bit_length m"
    by simp_all
  define k where "k = bit_length m"
  have pos: "0 < k" using m unfolding k_def by (subst bit_length.simps) simp
  have be: "binade x = - int k" using False by (simp add: binade_def r_def m_def k_def)
  have "\<lceil>r\<rceil> \<le> 2 ^ k" using b(2) by (simp add: m_def k_def)
  then have "r \<le> 2 ^ k" by (simp add: ceiling_le_iff)
  then have lo: "1 / 2 ^ k \<le> \<bar>x\<bar>"
    using xpos by (simp add: r_def field_simps)
  have "(2::int) ^ (k - 1) < \<lceil>r\<rceil>" using b(1) by (simp add: m_def k_def)
  then have "2 ^ (k - 1) < r" by (simp add: less_ceiling_iff)
  then have hi: "\<bar>x\<bar> < 1 / 2 ^ (k - 1)"
    using xpos by (simp add: r_def field_simps)
  have p1: "pow2 (binade x) = 1 / 2 ^ k" using pos by (simp add: be pow2_def)
  have p2: "pow2 (binade x + 1) = 1 / 2 ^ (k - 1)"
    using pos by (cases k) (simp_all add: be pow2_def)
  from lo hi show ?thesis by (simp add: p1 p2)
qed

lemma round_even_error: "\<bar>of_int (round_even y) - y\<bar> \<le> 1 / 2"
  unfolding round_even_def by (auto simp: abs_le_iff)

lemma pow2_powi: "pow2 e = 2 powi e"
  by (simp add: pow2_def power_int_def inverse_eq_divide power_one_over)

lemma pow2_add: "pow2 (a + b) = pow2 a * pow2 b"
  by (simp add: pow2_powi power_int_add)

lemma pow2_diff: "pow2 (a - b) = pow2 a / pow2 b"
  by (simp add: pow2_powi power_int_diff)

lemma pow2_mono: "a \<le> b \<Longrightarrow> pow2 a \<le> pow2 b"
  by (simp add: pow2_powi power_int_increasing)

lemma pow2_less_cancel: "pow2 a < pow2 b \<Longrightarrow> a < b"
  using pow2_mono [of b a] by (cases "a < b") simp_all

lemma pow2_nat: "0 \<le> e \<Longrightarrow> pow2 e = 2 ^ nat e"
  by (simp add: pow2_def)

lemma round_even_range: "\<lfloor>y\<rfloor> \<le> round_even y \<and> round_even y \<le> \<lfloor>y\<rfloor> + 1"
  by (simp add: round_even_def)

lemma round_even_of_int: "round_even (of_int k) = k"
  by (simp add: round_even_def)

text \<open>
  A result of \<open>double_round\<close> has at most 53 significant bits above the smallest
  exponent, and lies within half a unit in the last place of its argument.
\<close>

lemma double_round_nearest:
  assumes "double_round x = Some y"
  shows "\<exists>m e. y = of_int m * pow2 e \<and> \<bar>m\<bar> \<le> 2 ^ 53 \<and> - 1074 \<le> e \<and> \<bar>y\<bar> < 2 ^ 1024 \<and>
           \<bar>y - x\<bar> \<le> pow2 e / 2"
proof (cases "x = 0")
  case True
  with assms have "y = 0" by (simp add: double_round_def)
  with True show ?thesis
    by (intro exI [of _ 0] exI [of _ "0::int"]) (simp add: pow2_def)
next
  case False
  define e where "e = max (binade x - 52) (- 1074)"
  define v where "v = \<bar>x\<bar> / pow2 e"
  define k where "k = round_even v"
  from assms False have y: "y = sgn x * of_int k * pow2 e" and fin: "\<bar>y\<bar> < 2 ^ 1024"
    by (simp_all add: double_round_def Let_def e_def v_def k_def split: if_splits)
  have v0: "0 \<le> v" using pow2_pos [of e] by (simp add: v_def)
  have "\<bar>x\<bar> < pow2 (binade x + 1)" using binade_bounds [OF False] by simp
  also have "pow2 (binade x + 1) = pow2 (binade x - 52) * 2 ^ 53"
    using pow2_add [of "binade x - 52" 53] by (simp add: pow2_nat add.commute)
  also have "\<dots> \<le> pow2 e * 2 ^ 53"
    using pow2_mono [of "binade x - 52" e] by (simp add: e_def)
  finally have "v < 2 ^ 53" using pow2_pos [of e] by (simp add: v_def field_simps)
  then have f1: "\<lfloor>v\<rfloor> < 2 ^ 53" by (simp add: floor_less_iff)
  have f0: "0 \<le> \<lfloor>v\<rfloor>" using v0 by simp
  have kr: "0 \<le> k" "k \<le> 2 ^ 53"
    using round_even_range [of v] f0 f1 unfolding k_def by linarith+
  define m where "m = (if 0 < x then k else - k)"
  have ym: "y = of_int m * pow2 e" using False by (simp add: y m_def sgn_real_def)
  have mb: "\<bar>m\<bar> \<le> 2 ^ 53" using kr by (simp add: m_def)
  have xe: "sgn x * v * pow2 e = x" using pow2_pos [of e] by (simp add: v_def sgn_real_def)
  have "y - x = sgn x * of_int k * pow2 e - sgn x * v * pow2 e"
    by (simp only: y xe)
  also have "\<dots> = sgn x * (of_int k - v) * pow2 e"
    by (simp add: algebra_simps)
  finally have "y - x = sgn x * (of_int k - v) * pow2 e" .
  then have "\<bar>y - x\<bar> = \<bar>of_int k - v\<bar> * pow2 e"
    using False pow2_pos [of e] by (simp add: abs_mult sgn_real_def)
  also have "\<dots> \<le> 1 / 2 * pow2 e"
    using round_even_error [of v] pow2_pos [of e]
    by (intro mult_right_mono) (simp_all add: k_def)
  finally have err: "\<bar>y - x\<bar> \<le> pow2 e / 2" by simp
  have "- 1074 \<le> e" by (simp add: e_def)
  with ym mb fin err show ?thesis by blast
qed

text \<open>\<open>double_round\<close> leaves a double as it is.\<close>

lemma double_round_exact:
  assumes x: "x = of_int m * pow2 e" and m: "\<bar>m\<bar> < 2 ^ 53" and e: "- 1074 \<le> e"
      and fin: "\<bar>x\<bar> < 2 ^ 1024"
  shows "double_round x = Some x"
proof (cases "x = 0")
  case True
  then show ?thesis by (simp add: double_round_def)
next
  case False
  define e' where "e' = max (binade x - 52) (- 1074)"
  have "pow2 (binade x) \<le> \<bar>x\<bar>" using binade_bounds [OF False] by simp
  also have "\<bar>x\<bar> = real_of_int \<bar>m\<bar> * pow2 e"
    using pow2_pos [of e] by (simp add: x abs_mult)
  also have "\<dots> < 2 ^ 53 * pow2 e"
  proof -
    have "real_of_int \<bar>m\<bar> < real_of_int (2 ^ 53)" using m by (simp only: of_int_less_iff)
    then show ?thesis using pow2_pos [of e] by simp
  qed
  also have "\<dots> = pow2 (e + 53)" using pow2_add [of e 53] by (simp add: pow2_nat)
  finally have "binade x < e + 53" by (rule pow2_less_cancel)
  with e have le: "e' \<le> e" by (simp add: e'_def)
  define d where "d = nat (e - e')"
  have pe: "pow2 e = 2 ^ d * pow2 e'"
    using pow2_add [of "e - e'" e'] le by (simp add: d_def pow2_nat)
  have "\<bar>x\<bar> / pow2 e' = real_of_int (\<bar>m\<bar> * 2 ^ d)"
    using pow2_pos [of e'] by (simp add: x abs_mult pe)
  then have r: "round_even (\<bar>x\<bar> / pow2 e') = \<bar>m\<bar> * 2 ^ d"
    by (simp only: round_even_of_int)
  have "sgn x * real_of_int (\<bar>m\<bar> * 2 ^ d) * pow2 e' = sgn x * \<bar>x\<bar>"
    using pow2_pos [of e'] by (simp add: x abs_mult pe)
  also have "\<dots> = x" by (simp add: sgn_real_def)
  finally have "sgn x * real_of_int (round_even (\<bar>x\<bar> / pow2 e')) * pow2 e' = x"
    by (simp only: r)
  with False fin show ?thesis
    by (simp add: double_round_def Let_def e'_def [symmetric])
qed

section \<open>The cell index of a position\<close>

lemma sint_word_of_int_i32:
  "- (2 ^ 31) \<le> k \<Longrightarrow> k < 2 ^ 31 \<Longrightarrow> sint (word_of_int k :: i32) = k"
  by (simp add: sint_sbintrunc' signed_take_bit_int_eq_self)

text \<open>
  Where the quotient is a finite double whose ceiling fits an \<open>int\<close>, the converted
  value is that ceiling.
\<close>

lemma sint_ceil_to_int:
  "- (2 ^ 31) \<le> \<lceil>q\<rceil> \<Longrightarrow> \<lceil>q\<rceil> < 2 ^ 31 \<Longrightarrow> sint (ceil_to_int (Some q)) = \<lceil>q\<rceil>"
  by (simp add: ceil_to_int_def sint_word_of_int_i32)

lemmas double_eval =
  double_sub_def double_div_def double_round_def binade_def round_even_def pow2_def
  bit_length.simps Let_def

text \<open>
  C4, as the code has it: for every position, the cell index that \<open>toIndex\<close> computes on
  the x and the y axis, and on the z axis when the dimension is 3, is the ceiling of the
  quotient \<open>(coordinate - lower_bounds) / grid_width\<close> as double arithmetic computes it
  (the difference and the quotient each rounded to the nearest double), whenever that
  quotient is finite and its ceiling fits an \<open>int\<close>; the z index is 0 when the dimension
  is 2.
\<close>

theorem toIndex_vec_ceil:
  assumes "toIndex_vec g vec = (dx, dy, dz)"
  shows "(\<forall>q. double_div (double_sub (c0 vec) (c0 (lower_bounds g))) (grid_width g) = Some q \<and>
              - (2 ^ 31) \<le> \<lceil>q\<rceil> \<and> \<lceil>q\<rceil> < 2 ^ 31 \<longrightarrow> sint dx = \<lceil>q\<rceil>) \<and>
         (\<forall>q. double_div (double_sub (c1 vec) (c1 (lower_bounds g))) (grid_width g) = Some q \<and>
              - (2 ^ 31) \<le> \<lceil>q\<rceil> \<and> \<lceil>q\<rceil> < 2 ^ 31 \<longrightarrow> sint dy = \<lceil>q\<rceil>) \<and>
         (\<forall>q. dimension g = 3 \<and>
              double_div (double_sub (c2 vec) (c2 (lower_bounds g))) (grid_width g) = Some q \<and>
              - (2 ^ 31) \<le> \<lceil>q\<rceil> \<and> \<lceil>q\<rceil> < 2 ^ 31 \<longrightarrow> sint dz = \<lceil>q\<rceil>) \<and>
         (dimension g = 2 \<longrightarrow> dz = 0)"
proof -
  obtain v0 v1 v2 where vec: "vec = (v0, v1, v2)" by (cases vec)
  obtain l0 l1 l2 where lo: "lower_bounds g = (l0, l1, l2)" by (cases "lower_bounds g")
  from assms have dx: "dx = ceil_to_int (double_div (double_sub v0 l0) (grid_width g))"
    and dy: "dy = ceil_to_int (double_div (double_sub v1 l1) (grid_width g))"
    and dz: "dz = (if dimension g = 3
                   then ceil_to_int (double_div (double_sub v2 l2) (grid_width g)) else 0)"
    by (simp_all add: toIndex_vec_def vec lo)
  have x: "sint dx = \<lceil>q\<rceil>"
    if "double_div (double_sub (c0 vec) (c0 (lower_bounds g))) (grid_width g) = Some q \<and>
        - (2 ^ 31) \<le> \<lceil>q\<rceil> \<and> \<lceil>q\<rceil> < 2 ^ 31" for q
  proof -
    from that have "dx = ceil_to_int (Some q)" by (simp add: dx vec lo c0_def)
    with that show ?thesis by (simp only: sint_ceil_to_int)
  qed
  have y: "sint dy = \<lceil>q\<rceil>"
    if "double_div (double_sub (c1 vec) (c1 (lower_bounds g))) (grid_width g) = Some q \<and>
        - (2 ^ 31) \<le> \<lceil>q\<rceil> \<and> \<lceil>q\<rceil> < 2 ^ 31" for q
  proof -
    from that have "dy = ceil_to_int (Some q)" by (simp add: dy vec lo c1_def)
    with that show ?thesis by (simp only: sint_ceil_to_int)
  qed
  have z: "sint dz = \<lceil>q\<rceil>"
    if "dimension g = 3 \<and>
        double_div (double_sub (c2 vec) (c2 (lower_bounds g))) (grid_width g) = Some q \<and>
        - (2 ^ 31) \<le> \<lceil>q\<rceil> \<and> \<lceil>q\<rceil> < 2 ^ 31" for q
  proof -
    from that have "dz = ceil_to_int (Some q)" by (simp add: dz vec lo c2_def)
    with that show ?thesis by (simp only: sint_ceil_to_int)
  qed
  have flat: "dimension g = 2 \<longrightarrow> dz = 0" by (simp add: dz)
  show ?thesis
  proof (intro conjI)
    show "\<forall>q. double_div (double_sub (c0 vec) (c0 (lower_bounds g))) (grid_width g) = Some q \<and>
              - (2 ^ 31) \<le> \<lceil>q\<rceil> \<and> \<lceil>q\<rceil> < 2 ^ 31 \<longrightarrow> sint dx = \<lceil>q\<rceil>"
      by (intro allI impI) (rule x)
    show "\<forall>q. double_div (double_sub (c1 vec) (c1 (lower_bounds g))) (grid_width g) = Some q \<and>
              - (2 ^ 31) \<le> \<lceil>q\<rceil> \<and> \<lceil>q\<rceil> < 2 ^ 31 \<longrightarrow> sint dy = \<lceil>q\<rceil>"
      by (intro allI impI) (rule y)
    show "\<forall>q. dimension g = 3 \<and>
              double_div (double_sub (c2 vec) (c2 (lower_bounds g))) (grid_width g) = Some q \<and>
              - (2 ^ 31) \<le> \<lceil>q\<rceil> \<and> \<lceil>q\<rceil> < 2 ^ 31 \<longrightarrow> sint dz = \<lceil>q\<rceil>"
      by (intro allI impI) (rule z)
    show "dimension g = 2 \<longrightarrow> dz = 0" by (rule flat)
  qed
qed

text \<open>
  At cell width 1 and lower bounds 0 the position \<open>(5 / 4, - 3 / 4, 7)\<close> lies in the
  cell \<open>(2, 0, 0)\<close> in two dimensions; at cell width \<open>1 / 2\<close> the position
  \<open>(9 / 8, - 3 / 8, 13 / 8)\<close> lies in the cell \<open>(3, 0, 4)\<close> in three dimensions.
  Rounding to the nearest integer would give \<open>(1, - 1)\<close> and \<open>(2, - 1, 3)\<close>.
\<close>

theorem toIndex_vec_ceil_witness:
  "toIndex_vec ghostGrid (5 / 4, - (3 / 4), 7) = (2, 0, 0) \<and>
   double_div (double_sub (5 / 4) 0) 1 = Some (5 / 4) \<and> \<lceil>5 / 4 :: real\<rceil> = 2 \<and>
   double_div (double_sub (- (3 / 4)) 0) 1 = Some (- (3 / 4)) \<and> \<lceil>- (3 / 4) :: real\<rceil> = 0 \<and>
   dimension ghostGrid = 2 \<and>
   toIndex_vec (ghostGrid\<lparr>dimension := 3, grid_width := 1 / 2\<rparr>) (9 / 8, - (3 / 8), 13 / 8) =
     (3, 0, 4) \<and>
   double_div (double_sub (13 / 8) 0) (1 / 2) = Some (13 / 4) \<and> \<lceil>13 / 4 :: real\<rceil> = 4"
proof -
  let ?g = "ghostGrid\<lparr>dimension := 3, grid_width := 1 / 2\<rparr>"
  obtain dx dy dz where a: "toIndex_vec ghostGrid (5 / 4, - (3 / 4), 7) = (dx, dy, dz)"
    by (cases "toIndex_vec ghostGrid (5 / 4, - (3 / 4), 7)")
  obtain ex ey ez where b: "toIndex_vec ?g (9 / 8, - (3 / 8), 13 / 8) = (ex, ey, ez)"
    by (cases "toIndex_vec ?g (9 / 8, - (3 / 8), 13 / 8)")
  have q: "double_div (double_sub (5 / 4) 0) 1 = Some (5 / 4)"
    "double_div (double_sub (- (3 / 4)) 0) 1 = Some (- (3 / 4))"
    "double_div (double_sub (9 / 8) 0) (1 / 2) = Some (9 / 4)"
    "double_div (double_sub (- (3 / 8)) 0) (1 / 2) = Some (- (3 / 4))"
    "double_div (double_sub (13 / 8) 0) (1 / 2) = Some (13 / 4)"
    by (simp_all add: double_eval)
  have c: "\<lceil>5 / 4 :: real\<rceil> = 2" "\<lceil>- (3 / 4) :: real\<rceil> = 0" "\<lceil>9 / 4 :: real\<rceil> = 3"
    "\<lceil>13 / 4 :: real\<rceil> = 4"
    by simp_all
  have d: "dimension ghostGrid = 2" "dimension ?g = 3" "grid_width ghostGrid = 1"
    "grid_width ?g = 1 / 2" "lower_bounds ghostGrid = (0, 0, 0)" "lower_bounds ?g = (0, 0, 0)"
    by (simp_all add: ghostGrid_def)
  note t2 = toIndex_vec_ceil [OF a] and t3 = toIndex_vec_ceil [OF b]
  have "sint dx = \<lceil>5 / 4 :: real\<rceil>"
    by (rule t2 [THEN conjunct1, rule_format, of "5 / 4"]) (simp add: q d c0_def)
  moreover have "sint dy = \<lceil>- (3 / 4) :: real\<rceil>"
    by (rule t2 [THEN conjunct2, THEN conjunct1, rule_format, of "- (3 / 4)"])
       (simp add: q d c1_def)
  moreover have "dz = 0"
    by (rule t2 [THEN conjunct2, THEN conjunct2, THEN conjunct2, rule_format]) (rule d)
  ultimately have "sint dx = 2" "sint dy = 0" "dz = 0" by (simp_all add: c)
  then have a': "toIndex_vec ghostGrid (5 / 4, - (3 / 4), 7) = (2, 0, 0)"
    using a signed_word_eqI [of dx 2, where ?'a = int] signed_word_eqI [of dy 0, where ?'a = int]
    by simp
  have "sint ex = \<lceil>9 / 4 :: real\<rceil>"
    by (rule t3 [THEN conjunct1, rule_format, of "9 / 4"]) (simp add: q d c0_def)
  moreover have "sint ey = \<lceil>- (3 / 4) :: real\<rceil>"
    by (rule t3 [THEN conjunct2, THEN conjunct1, rule_format, of "- (3 / 4)"])
       (simp add: q d c1_def)
  moreover have "sint ez = \<lceil>13 / 4 :: real\<rceil>"
    by (rule t3 [THEN conjunct2, THEN conjunct2, THEN conjunct1, rule_format, of "13 / 4"])
       (simp add: q d c2_def)
  ultimately have "sint ex = 3" "sint ey = 0" "sint ez = 4" by (simp_all add: c)
  then have b': "toIndex_vec ?g (9 / 8, - (3 / 8), 13 / 8) = (3, 0, 4)"
    using b signed_word_eqI [of ex 3, where ?'a = int] signed_word_eqI [of ey 0, where ?'a = int]
      signed_word_eqI [of ez 4, where ?'a = int]
    by simp
  from a' b' q c d show ?thesis by (intro conjI)
qed

text \<open>
  C4, as the specification states it, fails. At cell width 1 and lower bound 0 the
  position \<open>x = 3000000000\<close> has the cell index \<open>INT_MIN\<close>, not the ceiling 3000000000
  of the quotient. At cell width \<open>0.1\<close> and \<open>x = 1.1\<close> (the doubles nearest to them) the
  quotient is above 11 and its ceiling is 12, but the quotient as a double is 11, and so
  is the cell index.
\<close>

theorem toIndex_vec_ceil_counterexample:
  "sint (fst (toIndex_vec ghostGrid (3000000000, 0, 0))) = - (2 ^ 31) \<and>
   \<lceil>(3000000000 - c0 (lower_bounds ghostGrid)) / grid_width ghostGrid\<rceil> = 3000000000 \<and>
   double_round (11 / 10) = Some (2476979795053773 / 2 ^ 51) \<and>
   double_round (1 / 10) = Some (3602879701896397 / 2 ^ 55) \<and>
   sint (fst (toIndex_vec (ghostGrid\<lparr>grid_width := 3602879701896397 / 2 ^ 55\<rparr>)
     (2476979795053773 / 2 ^ 51, 0, 0))) = 11 \<and>
   \<lceil>(2476979795053773 / 2 ^ 51 - c0 (lower_bounds ghostGrid)) /
     (3602879701896397 / 2 ^ 55 :: real)\<rceil> = 12"
  by (simp add: toIndex_vec_def ghostGrid_def ceil_to_int_def double_eval c0_def)

section \<open>The hash is invertible on the cells of the grid\<close>

lemma sdiv_nonneg: "0 \<le> a \<Longrightarrow> 0 < b \<Longrightarrow> (a::int) sdiv b = a div b"
  by (cases "a = 0") (simp_all add: signed_divide_int_def)

lemma smod_nonneg: "0 \<le> a \<Longrightarrow> 0 < b \<Longrightarrow> (a::int) smod b = a mod b"
  by (cases "a = 0") (simp_all add: signed_modulo_int_def)

lemma int_div_nonneg:
  assumes "0 \<le> a" "a < 2 ^ 31" "0 < b" "b < 2 ^ 31"
  shows "int_div (word_of_int a) (word_of_int b) = Inr (word_of_int (a div b))"
    and "int_mod (word_of_int a) (word_of_int b) = Inr (word_of_int (a mod b))"
proof -
  have sa: "sint (word_of_int a :: i32) = a" and sb: "sint (word_of_int b :: i32) = b"
    using assms by (simp_all add: sint_word_of_int_i32)
  have nz: "(word_of_int b :: i32) \<noteq> 0"
  proof
    assume "(word_of_int b :: i32) = 0"
    then have "sint (word_of_int b :: i32) = 0" by simp
    with sb assms show False by simp
  qed
  show "int_div (word_of_int a) (word_of_int b) = Inr (word_of_int (a div b))"
    using assms nz by (simp add: int_div_def sa sb sdiv_nonneg)
  show "int_mod (word_of_int a) (word_of_int b) = Inr (word_of_int (a mod b))"
    using assms nz by (simp add: int_mod_def sa sb smod_nonneg)
qed

lemma pair_bound:
  assumes "0 \<le> x" "x < n" "0 \<le> y" "y < (m::int)"
  shows "0 \<le> x + y * n" and "x + y * n < n * m"
proof -
  from assms show "0 \<le> x + y * n" by simp
  have "y + 1 \<le> m" using assms by simp
  then have "(y + 1) * n \<le> m * n" using assms by (intro mult_right_mono) simp_all
  then show "x + y * n < n * m" using assms by (simp add: algebra_simps)
qed

lemma pair_divmod:
  assumes "0 \<le> x" "x < (n::int)"
  shows "(x + y * n) div n = y" and "(x + y * n) mod n = x"
  using assms by simp_all

lemma sint_i32_bounds: "- (2 ^ 31) \<le> sint (w::i32)" "sint (w::i32) < 2 ^ 31"
  using sint_ge [of w] sint_lt [of w] by simp_all

lemma toHash_as_int:
  "toHash g ix iy iz =
     (if dimension g = 2 then word_of_int (sint ix + sint iy * sint (grid_number0 g))
      else word_of_int ((sint ix + sint iy * sint (grid_number0 g)) +
             sint iz * (sint (grid_number1 g) * sint (grid_number0 g))))"
  by (simp add: toHash_def toHash2_def mult.assoc)

lemma toIndex_toHash_2d:
  assumes d: "dimension g = 2"
      and fits: "cellCount g \<le> 2 ^ 31 - 1"
      and rng: "inRange g (ix, iy, iz)"
  shows "toIndex g (toHash g ix iy iz) = Inr (ix, iy, 0)"
proof -
  define X Y N0 N1 where "X = sint ix" and "Y = sint iy"
    and "N0 = sint (grid_number0 g)" and "N1 = sint (grid_number1 g)"
  have x: "0 \<le> X" "X < N0" and y: "0 \<le> Y" "Y < N1"
    using rng by (simp_all add: inRange_def X_def Y_def N0_def N1_def)
  have c: "N0 * N1 < 2 ^ 31" using fits d by (simp add: cellCount_def N0_def N1_def)
  have n0: "0 < N0" "N0 < 2 ^ 31"
    using x sint_i32_bounds [of "grid_number0 g"] by (simp_all add: N0_def)
  have h: "0 \<le> X + Y * N0" "X + Y * N0 < 2 ^ 31"
    using pair_bound [OF x y] c by simp_all
  have hash: "toHash g ix iy iz = word_of_int (X + Y * N0)"
    using d by (simp add: toHash_as_int X_def Y_def N0_def)
  have g0: "grid_number0 g = word_of_int N0" by (simp add: N0_def)
  have dy: "int_div (word_of_int (X + Y * N0)) (word_of_int N0) = Inr (word_of_int Y)"
    and dx: "int_mod (word_of_int (X + Y * N0)) (word_of_int N0) = Inr (word_of_int X)"
    using int_div_nonneg [OF h n0] pair_divmod [OF x, of Y] by simp_all
  have "toIndex2 g (word_of_int (X + Y * N0)) = Inr (word_of_int X, word_of_int Y)"
    unfolding toIndex2_def
    by (subst g0, subst g0) (simp add: dy dx bind_err_def del: of_int_add of_int_mult)
  then show ?thesis
    using d by (simp add: toIndex_def hash bind_err_def X_def Y_def)
qed

lemma toIndex_toHash_3d:
  assumes d: "dimension g \<noteq> 2"
      and fits: "cellCount g \<le> 2 ^ 31 - 1"
      and rng: "inRange g (ix, iy, iz)"
  shows "toIndex g (toHash g ix iy iz) = Inr (ix, iy, iz)"
proof -
  define X Y Z N0 N1 N2 where "X = sint ix" and "Y = sint iy" and "Z = sint iz"
    and "N0 = sint (grid_number0 g)" and "N1 = sint (grid_number1 g)"
    and "N2 = sint (grid_number2 g)"
  define P where "P = N1 * N0"
  define R where "R = X + Y * N0"
  have x: "0 \<le> X" "X < N0" and y: "0 \<le> Y" "Y < N1" and z: "0 \<le> Z" "Z < N2"
    using rng d by (simp_all add: inRange_def X_def Y_def Z_def N0_def N1_def N2_def)
  have c: "P * N2 < 2 ^ 31"
    using fits d by (simp add: cellCount_def N0_def N1_def N2_def P_def mult.commute)
  have r: "0 \<le> R" "R < P"
    using pair_bound [OF x y] by (simp_all add: R_def P_def mult.commute)
  have p0: "0 < P" using r by simp
  have "P * 1 \<le> P * N2" using p0 z by (intro mult_left_mono) simp_all
  then have p: "P < 2 ^ 31" using c by simp
  have n0: "0 < N0" "N0 < 2 ^ 31"
    using x sint_i32_bounds [of "grid_number0 g"] by (simp_all add: N0_def)
  have h: "0 \<le> R + Z * P" "R + Z * P < 2 ^ 31"
    using pair_bound [OF r z] c by simp_all
  have r31: "R < 2 ^ 31" using r p by simp
  have hash: "toHash g ix iy iz = word_of_int (R + Z * P)"
    using d by (simp add: toHash_as_int X_def Y_def Z_def N0_def N1_def R_def P_def)
  have g0: "grid_number0 g = word_of_int N0" by (simp add: N0_def)
  have g10: "grid_number1 g * grid_number0 g = word_of_int P"
    by (simp add: P_def N0_def N1_def)
  have dz: "int_div (word_of_int (R + Z * P)) (word_of_int P) = Inr (word_of_int Z)"
    and rm: "int_mod (word_of_int (R + Z * P)) (word_of_int P) = Inr (word_of_int R)"
    using int_div_nonneg [OF h p0 p] pair_divmod [OF r, of Z] by simp_all
  have dy: "int_div (word_of_int R) (word_of_int N0) = Inr (word_of_int Y)"
    and dx: "int_mod (word_of_int R) (word_of_int N0) = Inr (word_of_int X)"
    using int_div_nonneg [OF r(1) r31 n0] pair_divmod [OF x, of Y] by (simp_all add: R_def)
  have "toIndex g (word_of_int (R + Z * P)) =
      Inr (word_of_int X, word_of_int Y, word_of_int Z)"
    using d unfolding toIndex_def g10
    by (subst g0, subst g0) (simp add: dz rm dy dx bind_err_def del: of_int_add of_int_mult)
  then show ?thesis
    by (simp add: hash X_def Y_def Z_def)
qed

text \<open>
  C6, as the code has it: in a grid whose number of cells (\<open>Nx * Ny * Nz\<close>, or
  \<open>Nx * Ny\<close> in two dimensions) fits an \<open>int\<close>, two in-range cell index triples with the
  same hash agree on every participating axis, and \<open>toIndex\<close> of the hash of an
  in-range triple returns the triple, with the z index 0 in two dimensions.
\<close>

theorem toHash_injective_roundtrip:
  assumes fits: "cellCount g \<le> 2 ^ 31 - 1"
      and ri: "inRange g (ix, iy, iz)"
      and rj: "inRange g (jx, jy, jz)"
  shows "(toHash g ix iy iz = toHash g jx jy jz \<longrightarrow>
            ix = jx \<and> iy = jy \<and> (dimension g \<noteq> 2 \<longrightarrow> iz = jz)) \<and>
         toIndex g (toHash g ix iy iz) = Inr (ix, iy, if dimension g = 2 then 0 else iz)"
proof (cases "dimension g = 2")
  case True
  note a = toIndex_toHash_2d [OF True fits ri] and b = toIndex_toHash_2d [OF True fits rj]
  have inj: "toHash g ix iy iz = toHash g jx jy jz \<longrightarrow> ix = jx \<and> iy = jy"
  proof
    assume "toHash g ix iy iz = toHash g jx jy jz"
    with a b have "Inr (ix, iy, 0::i32) = (Inr (jx, jy, 0::i32) :: error + i32 \<times> i32 \<times> i32)"
      by (simp only:)
    then show "ix = jx \<and> iy = jy" by (simp only: sum.inject prod.inject)
  qed
  from inj a True show ?thesis by (simp only: if_True simp_thms)
next
  case False
  note a = toIndex_toHash_3d [OF False fits ri] and b = toIndex_toHash_3d [OF False fits rj]
  have inj: "toHash g ix iy iz = toHash g jx jy jz \<longrightarrow> ix = jx \<and> iy = jy \<and> iz = jz"
  proof
    assume "toHash g ix iy iz = toHash g jx jy jz"
    with a b have "Inr (ix, iy, iz) = (Inr (jx, jy, jz) :: error + i32 \<times> i32 \<times> i32)"
      by (simp only:)
    then show "ix = jx \<and> iy = jy \<and> iz = jz" by (simp only: sum.inject prod.inject)
  qed
  from inj a False show ?thesis by (simp only: if_False simp_thms)
qed

theorem toHash_injective_roundtrip_witness:
  "cellCount boxGrid \<le> 2 ^ 31 - 1 \<and> inRange boxGrid (3, 2, 4) \<and> inRange boxGrid (1, 1, 0) \<and>
   toHash boxGrid 3 2 4 = 59 \<and> toHash boxGrid 1 1 0 = 5 \<and>
   toIndex boxGrid 59 = Inr (3, 2, 4) \<and>
   cellCount flatGrid \<le> 2 ^ 31 - 1 \<and> inRange flatGrid (3, 2, 4) \<and>
   toHash flatGrid 3 2 4 = 11 \<and> toIndex flatGrid 11 = Inr (3, 2, 0)"
  using toHash_injective_roundtrip [of boxGrid 3 2 4 1 1 0]
    toHash_injective_roundtrip [of flatGrid 3 2 4 3 2 4]
  by (simp add: cellCount_def inRange_def boxGrid_def flatGrid_def toHash_def toHash2_def
      grid_number0_def grid_number1_def grid_number2_def)

text \<open>
  C6, as the specification states it, fails. In the grid of \<open>65536 * 65536 * 2\<close> cells
  the in-range triples \<open>(0, 0, 0)\<close> and \<open>(0, 0, 1)\<close> have the same hash, since
  \<open>65536 * 65536\<close> is not an \<open>int\<close>; in two dimensions the triples \<open>(0, 0, 0)\<close> and
  \<open>(0, 0, 1)\<close>, in range on both participating axes, have the same hash as well.
\<close>

theorem toHash_collision_counterexample:
  "inRange bigGrid (0, 0, 0) \<and> inRange bigGrid (0, 0, 1) \<and>
   toHash bigGrid 0 0 0 = toHash bigGrid 0 0 1 \<and>
   inRange flatGrid (0, 0, 0) \<and> inRange flatGrid (0, 0, 1) \<and>
   toHash flatGrid 0 0 0 = toHash flatGrid 0 0 1"
  by (simp add: inRange_def bigGrid_def flatGrid_def toHash_def toHash2_def
      grid_number0_def grid_number1_def grid_number2_def)

section \<open>Neighbour queries on a constructed grid\<close>

lemma sint_of_nat_i32: "k < 2 ^ 31 \<Longrightarrow> sint (of_nat k :: i32) = int k"
proof -
  assume "k < 2 ^ 31"
  then have "int k < 2 ^ 31" by (simp add: of_nat_less_numeral_power_cancel_iff)
  then have "sint (word_of_int (int k) :: i32) = int k"
    by (intro sint_word_of_int_i32) simp_all
  then show ?thesis by simp
qed

text \<open>Only valid particles are hashed, each under its own index.\<close>

lemma hashValidParticles_indices:
  "(h, p) \<in> set (hashValidParticles g i cs vs) \<Longrightarrow>
   \<exists>k. k < length cs \<and> k < length vs \<and> vs ! k \<and> p = of_nat (i + k)"
proof (induction g i cs vs rule: hashValidParticles.induct)
  case (1 g i c cs v vs)
  show ?case
  proof (cases "v \<and> (h, p) = (toHash_vec g c, of_nat i)")
    case True
    then show ?thesis by (intro exI [of _ 0]) simp
  next
    case False
    with "1.prems" have "(h, p) \<in> set (hashValidParticles g (Suc i) cs vs)"
      by (cases v) auto
    with "1.IH" obtain k where
      "k < length cs" "k < length vs" "vs ! k" "p = of_nat (Suc i + k)"
      by (cases v) blast+
    then show ?thesis by (intro exI [of _ "Suc k"]) simp
  qed
qed simp_all

text \<open>The constructor establishes the invariant.\<close>

lemma setHash_fields:
  "set (grid_hash (setHash g)) =
     set (hashValidParticles g 0 (coordinates g) (valid_coordinates g))"
  "coordinates (setHash g) = coordinates g"
  "valid_coordinates (setHash g) = valid_coordinates g"
  "size_grid (setHash g) = size_grid g"
  "grid_width (setHash g) = grid_width g"
  by (simp_all add: setHash_def Let_def)

lemma Grid_ctor_constructed:
  assumes ctor: "Grid_ctor cells width cs vs dimen = Inr g"
  shows "constructed g" and "coordinates g = cs" and "valid_coordinates g = vs"
    and "grid_width g = width"
proof -
  define g0 where "g0 = \<lparr>dimension = dimen, size_grid = of_nat (length cs), grid_width = width,
      coordinates = cs, valid_coordinates = vs,
      higher_bounds = (0, 0, 0), lower_bounds = (0, 0, 0),
      grid_number = (0, 0, 0), grid_hash = [], begin_hash = []\<rparr>"
  from ctor have pre: "length cs < 2 ^ 31"
    by (auto simp: Grid_ctor_def split: if_splits)
  from ctor pre obtain hi lo where
    hi: "getMaxCoordinates g0 = Inr hi" and
    sh: "g = setHash (g0\<lparr>higher_bounds := hi, lower_bounds := lo,
            grid_number := (cells (c0 hi) (c0 lo) width,
                            cells (c1 hi) (c1 lo) width,
                            cells (c2 hi) (c2 lo) width)\<rparr>)"
    by (auto simp: Grid_ctor_def g0_def [symmetric] Let_def bind_err_def
        split: if_splits sum.splits)
  define g1 where "g1 = g0\<lparr>higher_bounds := hi, lower_bounds := lo,
            grid_number := (cells (c0 hi) (c0 lo) width,
                            cells (c1 hi) (c1 lo) width,
                            cells (c2 hi) (c2 lo) width)\<rparr>"
  from hi have len: "length cs = length vs"
    by (auto simp: getMaxCoordinates_def maskedCoordinates_def bind_err_def g0_def
        split: if_splits)
  have g: "g = setHash g1" using sh by (simp add: g1_def)
  have g1: "coordinates g1 = cs" "valid_coordinates g1 = vs"
    "size_grid g1 = of_nat (length cs)" "grid_width g1 = width"
    by (simp_all add: g1_def g0_def)
  have gh: "set (grid_hash g) = set (hashValidParticles g1 0 cs vs)"
    unfolding g setHash_fields(1) g1(1,2) by (rule refl)
  have f: "coordinates g = cs" "valid_coordinates g = vs"
    "size_grid g = of_nat (length cs)" "grid_width g = width"
    unfolding g setHash_fields by (rule g1)+
  have ix: "\<exists>k<length cs. vs ! k \<and> p = of_nat k" if "p \<in> snd ` set (grid_hash g)" for p
  proof -
    from that gh obtain h where "(h, p) \<in> set (hashValidParticles g1 0 cs vs)" by auto
    from hashValidParticles_indices [OF this] show ?thesis by auto
  qed
  show "constructed g"
    unfolding constructed_def using len pre f ix by simp
  show "coordinates g = cs" "valid_coordinates g = vs" "grid_width g = width"
    using f by simp_all
qed

lemma particleAt_of_nat:
  assumes "constructed g" and "k < length (coordinates g)"
  shows "particleAt g (of_nat k) = Inr (coordinates g ! k)"
    and "sint (of_nat k :: i32) = int k"
proof -
  from assms have k: "k < 2 ^ 31" and n: "length (coordinates g) < 2 ^ 31"
    and s: "size_grid g = of_nat (length (coordinates g))"
    by (simp_all add: constructed_def)
  show sk: "sint (of_nat k :: i32) = int k" by (rule sint_of_nat_i32 [OF k])
  have "sint (size_grid g) = int (length (coordinates g))"
    unfolding s by (rule sint_of_nat_i32 [OF n])
  with sk assms(2) show "particleAt g (of_nat k) = Inr (coordinates g ! k)"
    by (simp add: particleAt_def)
qed

lemma particleAt_query:
  assumes "constructed g" and "0 \<le> sint i" and "sint i < sint (size_grid g)"
  shows "particleAt g i = Inr (coordinates g ! nat (sint i))"
    and "nat (sint i) < length (coordinates g)"
proof -
  from assms(1) have n: "length (coordinates g) < 2 ^ 31"
    and s: "size_grid g = of_nat (length (coordinates g))"
    by (simp_all add: constructed_def)
  have "sint (size_grid g) = int (length (coordinates g))"
    unfolding s by (rule sint_of_nat_i32 [OF n])
  with assms show "nat (sint i) < length (coordinates g)" by simp
  with assms show "particleAt g i = Inr (coordinates g ! nat (sint i))"
    by (simp add: particleAt_def)
qed

text \<open>Every bucket is a slice of \<open>grid_hash\<close>, and the traversal never fails.\<close>

lemma bucketSlice_subset: "set (bucketSlice g r) \<subseteq> snd ` set (grid_hash g)"
proof (cases r)
  case (Pair b e)
  have "set (take n (drop m (grid_hash g))) \<subseteq> set (grid_hash g)" for n m
    using set_take_subset [of n "drop m (grid_hash g)"] set_drop_subset [of m "grid_hash g"]
    by (rule subset_trans)
  then show ?thesis
    unfolding Pair bucketSlice_def by (simp add: image_mono)
qed

lemma collectCells_subset:
  "\<exists>out. collectCells g cells = Inr out \<and> set out \<subseteq> snd ` set (grid_hash g)"
proof (induction g cells rule: collectCells.induct)
  case (1 g)
  show ?case by simp
next
  case (2 g ix iy iz cells)
  show ?case
  proof (cases "inRange g (ix, iy, iz)")
    case True
    obtain r where r: "getGridHashBegin g (toHash g ix iy iz) = Inr r"
      by (simp add: getGridHashBegin_eq)
    from "2.IH"(1) [OF True] obtain rest where
      "collectCells g cells = Inr rest" "set rest \<subseteq> snd ` set (grid_hash g)"
      by blast
    with True r bucketSlice_subset [of g r] show ?thesis
      by (simp add: bind_err_def)
  next
    case False
    with "2.IH"(2) [OF False] show ?thesis by simp
  qed
qed

lemma withinRadius_result:
  "(\<forall>j\<in>set js. \<exists>rj. particleAt g j = Inr rj) \<Longrightarrow>
   \<exists>out. withinRadius g ri js = Inr out \<and> set out \<subseteq> set js \<and>
     (\<forall>j\<in>set out. \<exists>rj. particleAt g j = Inr rj \<and> distance ri rj \<le> grid_width g)"
proof (induction js)
  case Nil
  show ?case by simp
next
  case (Cons j js)
  from Cons.prems obtain rj where rj: "particleAt g j = Inr rj" by auto
  from Cons obtain rest where rest: "withinRadius g ri js = Inr rest" "set rest \<subseteq> set js"
    "\<forall>j\<in>set rest. \<exists>rj. particleAt g j = Inr rj \<and> distance ri rj \<le> grid_width g"
    by auto
  have step: "withinRadius g ri (j # js) =
      Inr (if distance ri rj \<le> grid_width g then j # rest else rest)"
    using rj rest(1) by (simp add: bind_err_def)
  show ?case
  proof (cases "distance ri rj \<le> grid_width g")
    case True
    have "\<forall>j'\<in>set (j # rest). \<exists>rj'. particleAt g j' = Inr rj' \<and>
        distance ri rj' \<le> grid_width g"
      using rest(3) rj True by (simp del: split_paired_Ex)
    moreover have "set (j # rest) \<subseteq> set (j # js)" using rest(2) by auto
    ultimately show ?thesis using step True by (simp only: if_True) blast
  next
    case False
    have "set rest \<subseteq> set (j # js)" using rest(2) by auto
    with rest(3) show ?thesis using step False by (simp only: if_False) blast
  qed
qed

text \<open>A stored particle index is the index of a valid particle.\<close>

lemma constructed_stored:
  assumes "constructed g" and "p \<in> snd ` set (grid_hash g)"
  shows "\<exists>k<length (coordinates g). valid_coordinates g ! k \<and> p = of_nat k"
proof -
  from assms(1) have "\<forall>p\<in>snd ` set (grid_hash g).
      \<exists>k<length (coordinates g). valid_coordinates g ! k \<and> p = of_nat k"
    unfolding constructed_def by (elim conjE)
  then show ?thesis using assms(2) by (rule bspec)
qed

lemma stored_particle:
  assumes c: "constructed g" and j: "j \<in> snd ` set (grid_hash g)"
  shows "0 \<le> sint j \<and> nat (sint j) < length (coordinates g) \<and>
         valid_coordinates g ! nat (sint j) \<and>
         particleAt g j = Inr (coordinates g ! nat (sint j))"
proof -
  from constructed_stored [OF c j] obtain k where k: "k < length (coordinates g)"
    "valid_coordinates g ! k" "j = of_nat k"
    by (elim exE conjE)
  from particleAt_of_nat [OF c k(1)] k show ?thesis by simp
qed


text \<open>
  Both queries of a constructed grid return for a query index in \<open>[0, size)\<close>; the box
  query returns stored particles, and the exact query returns those of them that lie
  within the cell width of the query particle.
\<close>

lemma queries_result:
  assumes c: "constructed g" and i: "0 \<le> sint i" "sint i < sint (size_grid g)"
  shows "\<exists>box near. getNeighborsInBox g i = Inr box \<and> getNeighbors g i = Inr near \<and>
           set box \<subseteq> snd ` set (grid_hash g) \<and> set near \<subseteq> set box \<and>
           (\<forall>j\<in>set near. \<exists>rj. particleAt g j = Inr rj \<and>
              distance (coordinates g ! nat (sint i)) rj \<le> grid_width g)"
proof -
  define ri where "ri = coordinates g ! nat (sint i)"
  have pi: "particleAt g i = Inr ri"
    unfolding ri_def by (rule particleAt_query(1) [OF c i])
  from collectCells_subset [of g "neighborCells g (toIndex_vec g ri)"] obtain box where
    box: "collectCells g (neighborCells g (toIndex_vec g ri)) = Inr box"
      "set box \<subseteq> snd ` set (grid_hash g)"
    by (elim exE conjE)
  have gb: "getNeighborsInBox g i = Inr box"
    using pi box(1) by (simp add: getNeighborsInBox_def bind_err_def)
  have "\<exists>rj. particleAt g j = Inr rj" if "j \<in> set box" for j
  proof -
    from that box(2) have "j \<in> snd ` set (grid_hash g)" by (rule subsetD [rotated])
    from stored_particle [OF c this] show ?thesis by (intro exI) (elim conjE)
  qed
  then have "\<forall>j\<in>set box. \<exists>rj. particleAt g j = Inr rj" by (intro ballI)
  from withinRadius_result [OF this, of ri] obtain near where
    near: "withinRadius g ri box = Inr near" "set near \<subseteq> set box"
      "\<forall>j\<in>set near. \<exists>rj. particleAt g j = Inr rj \<and> distance ri rj \<le> grid_width g"
    by (elim exE conjE)
  have gn: "getNeighbors g i = Inr near"
    using pi gb near(1) by (simp add: getNeighbors_def bind_err_def)
  from gb gn box(2) near(2) near(3) show ?thesis
    unfolding ri_def by (intro exI conjI)
qed


text \<open>
  A hash without a bucket contributes no particle to a query, and neither does a cell
  outside the grid.
\<close>

lemma absent_bucket_empty:
  "umap_find (begin_hash g) hash = None \<Longrightarrow>
   \<exists>r. getGridHashBegin g hash = Inr r \<and> bucketSlice g r = []"
  by (simp add: getGridHashBegin_eq bucketSlice_def)

lemma outside_cell_empty:
  "\<not> inRange g (ix, iy, iz) \<Longrightarrow> collectCells g [(ix, iy, iz)] = Inr []"
  by simp

lemma ceiling_half: "\<lceil>(1::real) / 2\<rceil> = 1"
  by (rule ceiling_unique) simp_all

lemma scenario1Grid_ctor:
  "Grid_ctor ceilPlusOne 1 [(0, 0, 0), (1 / 2, 0, 0), (2, 0, 0)] [True, True, True] 2 =
     Inr scenario1Grid"
  by (simp add: Grid_ctor_def scenario1Grid_def getMaxCoordinates_def getMinCoordinates_def
      maskedCoordinates_def maskColumn_def bind_err_def max3_def min3_def setHash_def
      toHash_vec_def toIndex_vec_def toHash_def toHash2_def ceil_to_int_def ceilPlusOne_def
      c0_def c1_def c2_def grid_number0_def umap_find_def double_eval ceiling_half)

lemma scenarioGrid_ctor:
  "Grid_ctor ceilPlusOne 1 [(0, 0, 0), (1 / 2, 0, 0), (2, 0, 0)] [True, False, True] 2 =
     Inr scenarioGrid"
  by (simp add: Grid_ctor_def scenarioGrid_def getMaxCoordinates_def getMinCoordinates_def
      maskedCoordinates_def maskColumn_def bind_err_def max3_def min3_def setHash_def
      toHash_vec_def toIndex_vec_def toHash_def toHash2_def ceil_to_int_def ceilPlusOne_def
      c0_def c1_def c2_def grid_number0_def umap_find_def double_eval ceiling_half)

text \<open>
  The specification's scenarios 1 and 2: with all three particles valid, the neighbours
  of particle 0 are 0 and 1 and particle 2 is alone; with particle 1 invalid, particle 0
  is alone.
\<close>

lemma scenario1Grid_neighbors:
  "getNeighbors scenario1Grid 0 = Inr [0, 1]" "getNeighbors scenario1Grid 2 = Inr [2]"
  by (simp_all add: getNeighbors_def getNeighborsInBox_def particleAt_def scenario1Grid_def
      bind_err_def toIndex_vec_def ceil_to_int_def neighborCells_def toHash_def toHash2_def
      grid_number0_def getGridHashBegin_def umap_empty_def umap_find_def umap_at_def
      bucketSlice_def distance_def c0_def c1_def c2_def double_eval ceiling_half
      inRange_def grid_number1_def power2_eq_square)

lemma scenarioGrid_neighbors:
  "getNeighbors scenarioGrid 0 = Inr [0]" "getNeighborsInBox scenarioGrid 0 = Inr [0]"
  by (simp_all add: getNeighbors_def getNeighborsInBox_def particleAt_def scenarioGrid_def
      bind_err_def toIndex_vec_def ceil_to_int_def neighborCells_def toHash_def toHash2_def
      grid_number0_def getGridHashBegin_def umap_empty_def umap_find_def umap_at_def
      bucketSlice_def distance_def c0_def c1_def c2_def double_eval ceiling_half
      inRange_def grid_number1_def power2_eq_square)

text \<open>
  C2: for every constructed grid and every query index \<open>i\<close> in \<open>[0, size)\<close>,
  \<open>getNeighbors\<close> returns, and every index \<open>j\<close> it returns is the index of a particle
  whose Euclidean distance to particle \<open>i\<close> is at most \<open>grid_width\<close>.
\<close>

theorem getNeighbors_within_radius:
  assumes ctor: "Grid_ctor cells width cs vs dimen = Inr g"
      and i: "0 \<le> sint i" "sint i < sint (size_grid g)"
  shows "\<exists>out. getNeighbors g i = Inr out \<and>
           (\<forall>j\<in>set out. 0 \<le> sint j \<and> nat (sint j) < length (coordinates g) \<and>
              distance (coordinates g ! nat (sint i)) (coordinates g ! nat (sint j))
                \<le> grid_width g)"
proof -
  note c = Grid_ctor_constructed(1) [OF ctor]
  from queries_result [OF c i] obtain box near where
    gn: "getNeighbors g i = Inr near" and
    sub: "set box \<subseteq> snd ` set (grid_hash g)" "set near \<subseteq> set box" and
    near: "\<forall>j\<in>set near. \<exists>rj. particleAt g j = Inr rj \<and>
             distance (coordinates g ! nat (sint i)) rj \<le> grid_width g"
    by (elim exE conjE)
  have "0 \<le> sint j \<and> nat (sint j) < length (coordinates g) \<and>
        distance (coordinates g ! nat (sint i)) (coordinates g ! nat (sint j)) \<le> grid_width g"
    if j: "j \<in> set near" for j
  proof -
    from j sub have "j \<in> snd ` set (grid_hash g)" by auto
    note s = stored_particle [OF c this]
    from bspec [OF near j] obtain rj where rj: "particleAt g j = Inr rj"
      "distance (coordinates g ! nat (sint i)) rj \<le> grid_width g"
      by (elim exE conjE)
    from rj(1) s have "rj = coordinates g ! nat (sint j)" by simp
    with rj(2) s show ?thesis by simp
  qed
  then have "\<forall>j\<in>set near. 0 \<le> sint j \<and> nat (sint j) < length (coordinates g) \<and>
      distance (coordinates g ! nat (sint i)) (coordinates g ! nat (sint j)) \<le> grid_width g"
    by (intro ballI)
  with gn show ?thesis by (intro exI [of _ near] conjI)
qed

theorem getNeighbors_within_radius_witness:
  "Grid_ctor ceilPlusOne 1 [(0, 0, 0), (1 / 2, 0, 0), (2, 0, 0)] [True, True, True] 2 =
     Inr scenario1Grid \<and>
   0 \<le> sint (0::i32) \<and> sint (0::i32) < sint (size_grid scenario1Grid) \<and>
   getNeighbors scenario1Grid 0 = Inr [0, 1] \<and>
   distance (coordinates scenario1Grid ! nat (sint (0::i32)))
     (coordinates scenario1Grid ! nat (sint (1::i32))) \<le> grid_width scenario1Grid"
proof -
  have r: "0 \<le> sint (0::i32)" "sint (0::i32) < sint (size_grid scenario1Grid)"
    by (simp_all add: scenario1Grid_def)
  from getNeighbors_within_radius [OF scenario1Grid_ctor r]
  have "\<forall>j\<in>set [0, 1 :: i32]. 0 \<le> sint j \<and> nat (sint j) < length (coordinates scenario1Grid) \<and>
          distance (coordinates scenario1Grid ! nat (sint (0::i32)))
            (coordinates scenario1Grid ! nat (sint j)) \<le> grid_width scenario1Grid"
    by (simp only: scenario1Grid_neighbors) simp
  then have "distance (coordinates scenario1Grid ! nat (sint (0::i32)))
     (coordinates scenario1Grid ! nat (sint (1::i32))) \<le> grid_width scenario1Grid"
    by simp
  with scenario1Grid_ctor r scenario1Grid_neighbors(1) show ?thesis by (intro conjI)
qed

text \<open>
  C3: for every constructed grid and every query index \<open>i\<close> in \<open>[0, size)\<close>, both
  \<open>getNeighbors\<close> and \<open>getNeighborsInBox\<close> return, and every index either of them
  returns is the index of a particle whose validity-mask entry is true, whatever the
  coordinates of the particles.
\<close>

theorem neighbors_are_valid:
  assumes ctor: "Grid_ctor cells width cs vs dimen = Inr g"
      and i: "0 \<le> sint i" "sint i < sint (size_grid g)"
  shows "\<exists>box near. getNeighborsInBox g i = Inr box \<and> getNeighbors g i = Inr near \<and>
           (\<forall>j\<in>set box \<union> set near. 0 \<le> sint j \<and>
              nat (sint j) < length (valid_coordinates g) \<and>
              valid_coordinates g ! nat (sint j))"
proof -
  note c = Grid_ctor_constructed(1) [OF ctor]
  from c have len: "length (coordinates g) = length (valid_coordinates g)"
    by (simp add: constructed_def)
  from queries_result [OF c i] obtain box near where
    gb: "getNeighborsInBox g i = Inr box" and gn: "getNeighbors g i = Inr near" and
    sub: "set box \<subseteq> snd ` set (grid_hash g)" "set near \<subseteq> set box"
    by (elim exE conjE)
  have "0 \<le> sint j \<and> nat (sint j) < length (valid_coordinates g) \<and>
        valid_coordinates g ! nat (sint j)"
    if j: "j \<in> set box \<union> set near" for j
  proof -
    from j sub have "j \<in> snd ` set (grid_hash g)" by auto
    from stored_particle [OF c this] len show ?thesis by simp
  qed
  then have all: "\<forall>j\<in>set box \<union> set near. 0 \<le> sint j \<and>
      nat (sint j) < length (valid_coordinates g) \<and> valid_coordinates g ! nat (sint j)"
    by (intro ballI)
  show ?thesis
    by (rule exI [of _ box], rule exI [of _ near]) (intro conjI gb gn all)
qed

theorem neighbors_are_valid_witness:
  "Grid_ctor ceilPlusOne 1 [(0, 0, 0), (1 / 2, 0, 0), (2, 0, 0)] [True, False, True] 2 =
     Inr scenarioGrid \<and>
   0 \<le> sint (0::i32) \<and> sint (0::i32) < sint (size_grid scenarioGrid) \<and>
   getNeighborsInBox scenarioGrid 0 = Inr [0] \<and> getNeighbors scenarioGrid 0 = Inr [0] \<and>
   valid_coordinates scenarioGrid ! nat (sint (0::i32))"
proof -
  have r: "0 \<le> sint (0::i32)" "sint (0::i32) < sint (size_grid scenarioGrid)"
    by (simp_all add: scenarioGrid_def)
  from neighbors_are_valid [OF scenarioGrid_ctor r]
  have "valid_coordinates scenarioGrid ! nat (sint (0::i32))"
    by (simp only: scenarioGrid_neighbors) simp
  with scenarioGrid_ctor r scenarioGrid_neighbors show ?thesis by (intro conjI)
qed

end
